theory Spec2Isabelle
  imports
    Main
    "HOL-Library.Char_ord"
    "HOL-Library.List_Lexorder"
    "HOL-Library.Product_Lexorder"
    "HOL-Library.AList"
    "HOL-Library.Multiset"
begin

section \<open>Python values used by the scripts\<close>

text \<open>
  A value read with \<^verbatim>\<open>row.get(...)\<close> from a \<^verbatim>\<open>csv.DictReader\<close> row, or extracted from
  markup, is a \<^verbatim>\<open>str\<close> or \<^verbatim>\<open>None\<close>: a \<open>string option\<close>. Python's truth test on such a
  value (\<^verbatim>\<open>if x\<close>, \<^verbatim>\<open>not x\<close>) is false for \<^verbatim>\<open>None\<close> and for the empty string.
\<close>

definition truthy :: "string option \<Rightarrow> bool" where
  "truthy x = (case x of None \<Rightarrow> False | Some s \<Rightarrow> s \<noteq> [])"

text \<open>The exceptions the modelled code can raise.\<close>

datatype py_error = AttributeError | IndexError | KeyError | StopIteration

section \<open>The cross-unit consolidator: \<^verbatim>\<open>start_combining.py\<close>\<close>

subsection \<open>Priority tables\<close>

text \<open>\<^verbatim>\<open>unit_priority_map\<close> (lines 22-26) and \<^verbatim>\<open>special_teams_position_order\<close> (lines 30-38).\<close>

definition unit_priority_map :: "string \<rightharpoonup> nat" where
  "unit_priority_map = map_of
     [(''_offense.csv'', 1), (''_defense.csv'', 2), (''_special_teams.csv'', 3)]"

definition special_teams_position_order :: "string \<rightharpoonup> nat" where
  "special_teams_position_order = map_of
     [(''PK'', 1), (''P'', 2), (''H'', 3), (''LS'', 4), (''PR'', 5), (''KR'', 6)]"

text \<open>\<^verbatim>\<open>d.get(k, default)\<close>.\<close>

definition dict_get :: "('k \<rightharpoonup> 'v) \<Rightarrow> 'k \<Rightarrow> 'v \<Rightarrow> 'v" where
  "dict_get d k dflt = (case d k of None \<Rightarrow> dflt | Some v \<Rightarrow> v)"

text \<open>\<^verbatim>\<open>unit_priority_map.get(x, 999)\<close>, the rank of a file type (lines 80 and 90).\<close>

definition unit_priority :: "string \<Rightarrow> nat" where
  "unit_priority sfx = dict_get unit_priority_map sfx 999"

subsection \<open>Rows and consolidated players\<close>

text \<open>
  One row of a per-unit CSV as \<^verbatim>\<open>csv.DictReader\<close> yields it; only the six columns the
  consolidator reads (lines 93-98). A column that the file lacks reads as \<^verbatim>\<open>None\<close>.
\<close>

record csv_row =
  row_PlayerUID :: "string option"
  row_PlayerName :: "string option"
  row_PlayerURL :: "string option"
  row_InjuryStatus :: "string option"
  row_Position :: "string option"
  row_Depth :: "string option"

text \<open>A line of a file that has all six columns: every column reads as a string.\<close>

definition csv_line :: "string \<Rightarrow> string \<Rightarrow> string \<Rightarrow> string \<Rightarrow> string \<Rightarrow> string \<Rightarrow> csv_row" where
  "csv_line uid name url status position depth =
     \<lparr>row_PlayerUID = Some uid, row_PlayerName = Some name, row_PlayerURL = Some url,
      row_InjuryStatus = Some status, row_Position = Some position, row_Depth = Some depth\<rparr>"

text \<open>An entry of \<^verbatim>\<open>all_positions\<close>: \<^verbatim>\<open>(unit_priority, position_name, depth)\<close>; the depth is
  the CSV's text, never converted to a number.\<close>

type_synonym pos_tuple = "nat \<times> string \<times> string"

text \<open>The value the \<^verbatim>\<open>defaultdict\<close> of line 70 creates for a new key, and its fields.\<close>

record player =
  TeamName :: string
  PlayerName :: "string option"
  PlayerURL :: "string option"
  PlayerUID :: string
  InjuryStatus :: "string option"
  all_positions :: "pos_tuple list"

definition default_player :: "string \<Rightarrow> player" where
  "default_player team_name =
     \<lparr>TeamName = team_name, PlayerName = Some [], PlayerURL = Some [], PlayerUID = [],
      InjuryStatus = Some [], all_positions = []\<rparr>"

text \<open>
  \<^verbatim>\<open>consolidated_players\<close> is a dictionary in insertion order: an association list
  with distinct keys, \<^const>\<open>AList.update\<close> replacing in place or appending.
\<close>

type_synonym players = "(string \<times> player) list"

definition lookup_player :: "string \<Rightarrow> players \<Rightarrow> string \<Rightarrow> player" where
  "lookup_player team_name cp uid =
     (case map_of cp uid of None \<Rightarrow> default_player team_name | Some p \<Rightarrow> p)"

subsection \<open>Folding one row in (lines 92-119)\<close>

text \<open>The guard of line 100: rows without uid, dash names and empty slots are skipped.\<close>

definition skip_row :: "csv_row \<Rightarrow> bool" where
  "skip_row row \<longleftrightarrow>
     \<not> truthy (row_PlayerUID row) \<or> row_PlayerName row = Some ''-''
     \<or> row_Position row = Some ''Empty Slot''"

text \<open>Lines 106-113: the display fields.\<close>

definition update_info :: "player \<Rightarrow> string \<Rightarrow> csv_row \<Rightarrow> player" where
  "update_info p player_uid row =
     (if \<not> truthy (PlayerName p) \<or> PlayerName p = Some ''Empty Slot'' then
        p\<lparr>PlayerName := row_PlayerName row,
          PlayerURL := row_PlayerURL row,
          PlayerUID := player_uid,
          InjuryStatus := (if row_InjuryStatus row \<noteq> Some ''Empty Slot''
                           then row_InjuryStatus row else Some [])\<rparr>
      else if InjuryStatus p = Some ''Empty Slot'' \<and> row_InjuryStatus row \<noteq> Some ''Empty Slot''
      then p\<lparr>InjuryStatus := row_InjuryStatus row\<rparr>
      else p)"

text \<open>Lines 116-119: the position list.\<close>

definition add_position :: "nat \<Rightarrow> player \<Rightarrow> csv_row \<Rightarrow> player" where
  "add_position current_unit_priority p row =
     (case (row_Position row, row_Depth row) of
        (Some position, Some depth) \<Rightarrow>
          if position \<noteq> [] \<and> depth \<noteq> [] then
            (if (current_unit_priority, position, depth) \<notin> set (all_positions p)
             then p\<lparr>all_positions := all_positions p @ [(current_unit_priority, position, depth)]\<rparr>
             else p)
          else p
      | _ \<Rightarrow> p)"

definition process_row :: "string \<Rightarrow> nat \<Rightarrow> players \<Rightarrow> csv_row \<Rightarrow> players" where
  "process_row team_name current_unit_priority cp row =
     (if skip_row row then cp
      else
        (case row_PlayerUID row of
           None \<Rightarrow> cp
         | Some player_uid \<Rightarrow>
             (let p = lookup_player team_name cp player_uid
              in AList.update player_uid
                   (add_position current_unit_priority (update_info p player_uid row) row) cp)))"

text \<open>The loop over the rows of one file (line 92).\<close>

definition process_file :: "string \<Rightarrow> nat \<Rightarrow> players \<Rightarrow> csv_row list \<Rightarrow> players" where
  "process_file team_name current_unit_priority cp rows =
     foldl (process_row team_name current_unit_priority) cp rows"

subsection \<open>The files of one team (lines 40-57 and 79-90)\<close>

text \<open>
  \<^verbatim>\<open>files_info\<close> maps a file-type suffix to the file of that type. Each directory entry of
  the team is one assignment \<^verbatim>\<open>team_files[team_slug][suffix_key] = path\<close>, in the order
  \<^verbatim>\<open>os.listdir\<close> gives; an entry is here the suffix key with the rows of the file.
\<close>

type_synonym files_info = "(string \<times> csv_row list) list"

definition group_files :: "(string \<times> csv_row list) list \<Rightarrow> files_info" where
  "group_files listing = foldl (\<lambda>d (k, v). AList.update k v d) [] listing"

text \<open>
  A directory as the earlier steps leave it holds at most one file of each type for a
  team, and only the three types of \<^verbatim>\<open>unit_priority_map\<close> are grouped (lines 51-55).
\<close>

definition valid_listing :: "(string \<times> csv_row list) list \<Rightarrow> bool" where
  "valid_listing listing \<longleftrightarrow>
     distinct (map fst listing) \<and> list_all (\<lambda>k. unit_priority_map k \<noteq> None) (map fst listing)"

text \<open>Line 80: \<^verbatim>\<open>sorted(files_info.keys(), key=...)\<close>; Python's sort is stable, as
  \<^const>\<open>sort_key\<close> is.\<close>

definition sorted_file_types :: "files_info \<Rightarrow> string list" where
  "sorted_file_types fi = sort_key unit_priority (map fst fi)"

text \<open>Lines 82-124 for all files of the team; every file is taken as read in full (a
  file that cannot be read is reported at lines 121-124 and adds nothing).\<close>

definition consolidate :: "string \<Rightarrow> files_info \<Rightarrow> players" where
  "consolidate team_name fi =
     foldl (\<lambda>cp sfx. process_file team_name (unit_priority sfx) cp (dict_get (map_of fi) sfx []))
       [] (sorted_file_types fi)"

subsection \<open>Sorting the positions and writing the rows (lines 126-178)\<close>

text \<open>
  \<^verbatim>\<open>get_position_sort_key\<close> returns \<^verbatim>\<open>(unit_prio, pos_order_value, depth)\<close> for a
  special-teams tuple and \<^verbatim>\<open>(unit_prio, position_name, depth)\<close> otherwise. The second
  component is a number in one case and a string in the other; Python compares it only
  between two keys with the same \<^verbatim>\<open>unit_prio\<close>, hence of the same kind. The key is
  embedded in one ordered type by giving the number and the string a component each,
  the unused one constant.
\<close>

type_synonym sort_key_t = "nat \<times> nat \<times> string \<times> string"

definition get_position_sort_key :: "pos_tuple \<Rightarrow> sort_key_t" where
  "get_position_sort_key pos_tuple =
     (case pos_tuple of (unit_prio, position_name, depth) \<Rightarrow>
        if unit_prio = dict_get unit_priority_map ''_special_teams.csv'' 0 then
          (unit_prio, dict_get special_teams_position_order position_name 999, [], depth)
        else (unit_prio, 0, position_name, depth))"

text \<open>
  The key as Python builds it, with its second component a number or a string, and
  Python's \<^verbatim>\<open><\<close> on two such tuples: the first components that differ decide, and
  comparing a number with a string raises \<^verbatim>\<open>TypeError\<close>, here \<open>None\<close>.
\<close>

definition py_sort_key :: "pos_tuple \<Rightarrow> nat \<times> (nat + string) \<times> string" where
  "py_sort_key pos_tuple =
     (case pos_tuple of (unit_prio, position_name, depth) \<Rightarrow>
        if unit_prio = dict_get unit_priority_map ''_special_teams.csv'' 0 then
          (unit_prio, Inl (dict_get special_teams_position_order position_name 999), depth)
        else (unit_prio, Inr position_name, depth))"

definition py_tuple_less ::
  "nat \<times> (nat + string) \<times> string \<Rightarrow> nat \<times> (nat + string) \<times> string \<Rightarrow> bool option" where
  "py_tuple_less k1 k2 =
     (case (k1, k2) of ((a1, b1, c1), (a2, b2, c2)) \<Rightarrow>
        if a1 \<noteq> a2 then Some (a1 < a2)
        else if b1 \<noteq> b2 then
          (case (b1, b2) of
             (Inl x, Inl y) \<Rightarrow> Some (x < y)
           | (Inr x, Inr y) \<Rightarrow> Some (x < y)
           | _ \<Rightarrow> None)
        else Some (c1 < c2))"

text \<open>Line 152: \<^verbatim>\<open>all_positions.sort(key=get_position_sort_key)\<close>, a stable sort; the
  result of a stable sort is determined by the order of the keys.\<close>

definition sort_positions :: "pos_tuple list \<Rightarrow> pos_tuple list" where
  "sort_positions ps = sort_key get_position_sort_key ps"

text \<open>Lines 154-156: the entry at an index, or \<^verbatim>\<open>(None, None, None)\<close>, here \<open>None\<close>.\<close>

definition pos_at :: "pos_tuple list \<Rightarrow> nat \<Rightarrow> pos_tuple option" where
  "pos_at ps i = (if i < length ps then Some (ps ! i) else None)"

text \<open>\<^verbatim>\<open>pos[1] if pos[1] else ''\<close> and \<^verbatim>\<open>pos[2] if pos[2] else ''\<close>.\<close>

definition pos_name :: "pos_tuple option \<Rightarrow> string" where
  "pos_name t = (case t of None \<Rightarrow> [] | Some (u, position_name, depth) \<Rightarrow> position_name)"

definition pos_depth :: "pos_tuple option \<Rightarrow> string" where
  "pos_depth t = (case t of None \<Rightarrow> [] | Some (u, position_name, depth) \<Rightarrow> depth)"

text \<open>A cell handed to \<^verbatim>\<open>csv.writer\<close> is a string or \<^verbatim>\<open>None\<close>.\<close>

definition header :: "string option list" where
  "header = map Some [''TeamName'', ''PrimaryPosition'', ''PrimaryDepth'', ''PlayerName'',
     ''PlayerURL'', ''PlayerUID'', ''InjuryStatus'', ''Position2'', ''Depth2'', ''Position3'',
     ''Depth3'']"

definition output_row :: "player \<Rightarrow> string option list" where
  "output_row player_data =
     (let ps = sort_positions (all_positions player_data);
          primary_pos = pos_at ps 0;
          secondary_pos = pos_at ps 1;
          tertiary_pos = pos_at ps 2
      in [Some (TeamName player_data), Some (pos_name primary_pos), Some (pos_depth primary_pos),
          PlayerName player_data, PlayerURL player_data, Some (PlayerUID player_data),
          InjuryStatus player_data,
          Some (pos_name secondary_pos), Some (pos_depth secondary_pos),
          Some (pos_name tertiary_pos), Some (pos_depth tertiary_pos)])"

text \<open>Line 148: the players in the order of \<^verbatim>\<open>sorted(consolidated_players.keys())\<close>.\<close>

definition output_rows :: "string \<Rightarrow> players \<Rightarrow> string option list list" where
  "output_rows team_name cp =
     header # map (\<lambda>player_uid. output_row (lookup_player team_name cp player_uid))
                (sort (map fst cp))"

text \<open>The combined table of one team, from the directory entries of that team.\<close>

definition combine_team :: "string \<Rightarrow> (string \<times> csv_row list) list \<Rightarrow> string option list list" where
  "combine_team team_name listing =
     output_rows team_name (consolidate team_name (group_files listing))"


text \<open>The invariant of the position lists: no list holds a tuple twice.\<close>

definition positions_distinct :: "players \<Rightarrow> bool" where
  "positions_distinct cp = list_all (\<lambda>(k, p). distinct (all_positions p)) cp"

text \<open>The keys of the dictionary are the uids stored in its values, each once.\<close>

definition uid_keyed :: "players \<Rightarrow> bool" where
  "uid_keyed cp \<longleftrightarrow> distinct (map fst cp) \<and> list_all (\<lambda>(k, p). PlayerUID p = k) cp"

text \<open>The uids of the rows that pass the guard of line 100, in the order of the rows.\<close>

definition accepted_uids :: "csv_row list \<Rightarrow> string list" where
  "accepted_uids rows =
     concat (map (\<lambda>row. if skip_row row then []
                         else (case row_PlayerUID row of None \<Rightarrow> [] | Some k \<Rightarrow> [k])) rows)"

text \<open>The \<^verbatim>\<open>PlayerUID\<close> column of a combined table, below the header.\<close>

definition uid_column :: "string option list list \<Rightarrow> string option list" where
  "uid_column table = map (\<lambda>r. r ! 5) (tl table)"

section \<open>Parsed markup\<close>

text \<open>
  The scripts hand each page to an HTML parser and then work on the parsed tree only.
  The tree is the input here: a tag with its name, the list of its classes (the
  parser splits the \<^verbatim>\<open>class\<close> attribute at white space), its other attributes and its
  children, or a piece of text. The parsed document itself is a tag whose children are
  the top-level nodes.
\<close>

datatype node =
    Tag string "string list" "(string \<times> string) list" "node list"
  | NavigableString string

fun tag_name :: "node \<Rightarrow> string option" where
  "tag_name (Tag n cls attrs cs) = Some n"
| "tag_name (NavigableString s) = None"

fun classes :: "node \<Rightarrow> string list" where
  "classes (Tag n cls attrs cs) = cls"
| "classes (NavigableString s) = []"

fun attrs :: "node \<Rightarrow> (string \<times> string) list" where
  "attrs (Tag n cls ats cs) = ats"
| "attrs (NavigableString s) = []"

text \<open>All nodes below a node, in document order.\<close>

fun descendants :: "node \<Rightarrow> node list" where
  "descendants (Tag n cls ats cs) = concat (map (\<lambda>c. c # descendants c) cs)"
| "descendants (NavigableString s) = []"

text \<open>\<^verbatim>\<open>find_all\<close> and \<^verbatim>\<open>find\<close> with a filter on the tags; \<^verbatim>\<open>find\<close> gives the first
  match or \<^verbatim>\<open>None\<close>.\<close>

definition find_all :: "node \<Rightarrow> (node \<Rightarrow> bool) \<Rightarrow> node list" where
  "find_all n P = filter P (descendants n)"

definition find_first :: "node \<Rightarrow> (node \<Rightarrow> bool) \<Rightarrow> node option" where
  "find_first n P = (case find_all n P of [] \<Rightarrow> None | x # xs \<Rightarrow> Some x)"

text \<open>The filters the scripts use: a tag name, a class given as a string
  (\<^verbatim>\<open>class_='Table__TR'\<close>), a class given as a test on each class
  (\<^verbatim>\<open>class_=lambda x: ...\<close>), an attribute with its value
  (\<^verbatim>\<open>{'data-testid': 'statCell'}\<close>).\<close>

definition is_tag :: "string \<Rightarrow> node \<Rightarrow> bool" where
  "is_tag nm n = (tag_name n = Some nm)"

definition has_class :: "string \<Rightarrow> node \<Rightarrow> bool" where
  "has_class c n = (c \<in> set (classes n))"

definition class_test :: "(string \<Rightarrow> bool) \<Rightarrow> node \<Rightarrow> bool" where
  "class_test P n = list_ex P (classes n)"

definition has_attr :: "string \<Rightarrow> string \<Rightarrow> node \<Rightarrow> bool" where
  "has_attr k v n = (map_of (attrs n) k = Some v)"

text \<open>\<^verbatim>\<open>tag.text\<close>: the text pieces below the tag, concatenated.\<close>

fun strings :: "node \<Rightarrow> string list" where
  "strings (Tag n cls ats cs) = concat (map strings cs)"
| "strings (NavigableString s) = [s]"

definition text_of :: "node \<Rightarrow> string" where
  "text_of n = concat (strings n)"

subsection \<open>String methods\<close>

text \<open>White space as \<^verbatim>\<open>str.strip\<close> and \<^verbatim>\<open>str.split\<close> see it, for ASCII text: tab, line
  feed, vertical tab, form feed, carriage return, the four separators and the blank.
  Python counts further characters as white space (U+0085, U+00A0 and the other
  Unicode spaces); text that holds them is outside this model.\<close>

definition is_space :: "char \<Rightarrow> bool" where
  "is_space c = (of_char c \<in> {9, 10, 11, 12, 13, 28, 29, 30, 31, 32 :: nat})"

definition strip :: "string \<Rightarrow> string" where
  "strip s = rev (dropWhile is_space (rev (dropWhile is_space s)))"

text \<open>\<^verbatim>\<open>s.split()[0]\<close>: the first word, or \<^verbatim>\<open>IndexError\<close> when there is none.\<close>

definition first_word :: "string \<Rightarrow> py_error + string" where
  "first_word s =
     (let w = takeWhile (\<lambda>c. \<not> is_space c) (dropWhile is_space s)
      in if w = [] then Inl IndexError else Inr w)"

text \<open>\<^verbatim>\<open>sep.join(xs)\<close>.\<close>

fun join :: "string \<Rightarrow> string list \<Rightarrow> string" where
  "join sep [] = []"
| "join sep [x] = x"
| "join sep (x # y # ys) = x @ sep @ join sep (y # ys)"

text \<open>\<^verbatim>\<open>tag.get_text(separator=' ', strip=True)\<close>: every piece stripped, the empty ones
  dropped, the rest joined by a blank.\<close>

definition get_text_stripped :: "node \<Rightarrow> string" where
  "get_text_stripped n = join '' '' (filter (\<lambda>s. s \<noteq> []) (map strip (strings n)))"

text \<open>\<^verbatim>\<open>s.startswith(p)\<close> and \<^verbatim>\<open>sub in s\<close>.\<close>

fun startswith :: "string \<Rightarrow> string \<Rightarrow> bool" where
  "startswith s [] = True"
| "startswith [] (p # ps) = False"
| "startswith (c # cs) (p # ps) = (c = p \<and> startswith cs ps)"

fun contains :: "string \<Rightarrow> string \<Rightarrow> bool" where
  "contains [] sub = (sub = [])"
| "contains (c # cs) sub = (startswith (c # cs) sub \<or> contains cs sub)"

text \<open>\<^verbatim>\<open>s.isdigit()\<close> for ASCII text: not empty and every character a decimal digit.
  Python accepts further digits (U+00B2 and other Unicode digits); text that holds them
  is outside this model.\<close>

definition isdigit :: "string \<Rightarrow> bool" where
  "isdigit s = (s \<noteq> [] \<and> list_all (\<lambda>c. CHR ''0'' \<le> c \<and> c \<le> CHR ''9'') s)"

text \<open>
  \<^verbatim>\<open>re.search(r'\(([^)]+)\)$', s)\<close> and its group 1. The search takes the leftmost
  opening parenthesis from which the pattern matches: the characters up to the next
  closing parenthesis are the group, at least one is needed, and that closing
  parenthesis must end the string (\<^verbatim>\<open>$\<close> also matches before one final line feed).
\<close>

definition at_dollar :: "string \<Rightarrow> bool" where
  "at_dollar rest = (rest = [] \<or> rest = [CHR 0x0A])"

definition match_group :: "string \<Rightarrow> string option" where
  "match_group cs =
     (let body = takeWhile (\<lambda>c. c \<noteq> CHR '')'') cs;
          rest = dropWhile (\<lambda>c. c \<noteq> CHR '')'') cs
      in if body \<noteq> [] \<and> rest \<noteq> [] \<and> at_dollar (tl rest) then Some body else None)"

fun search_parenthesized :: "string \<Rightarrow> string option" where
  "search_parenthesized [] = None"
| "search_parenthesized (c # cs) =
     (if c = CHR ''('' then
        (case match_group cs of Some body \<Rightarrow> Some body | None \<Rightarrow> search_parenthesized cs)
      else search_parenthesized cs)"

subsection \<open>Loops that may raise\<close>

text \<open>A loop that builds a list from the items of a sequence, one call per item, and
  stops at the first call that raises.\<close>

fun mapM :: "('a \<Rightarrow> py_error + 'b) \<Rightarrow> 'a list \<Rightarrow> py_error + 'b list" where
  "mapM f [] = Inr []"
| "mapM f (x # xs) =
     (case f x of
        Inl e \<Rightarrow> Inl e
      | Inr y \<Rightarrow> (case mapM f xs of Inl e \<Rightarrow> Inl e | Inr ys \<Rightarrow> Inr (y # ys)))"

text \<open>\<^verbatim>\<open>str(n)\<close> for a natural number.\<close>

definition digit_char :: "nat \<Rightarrow> char" where
  "digit_char d = char_of (of_char (CHR ''0'') + d)"

fun str_nat :: "nat \<Rightarrow> string" where
  "str_nat n = (if n < 10 then [digit_char n] else str_nat (n div 10) @ [digit_char (n mod 10)])"

declare str_nat.simps [simp del]

text \<open>\<^verbatim>\<open>enumerate(xs, start)\<close>.\<close>

definition enumerate_from :: "nat \<Rightarrow> 'a list \<Rightarrow> (nat \<times> 'a) list" where
  "enumerate_from start xs = zip [start ..< start + length xs] xs"

section \<open>The NFL depth-chart parser: \<^verbatim>\<open>process_defenses.py\<close>\<close>

text \<open>A parsed player (lines 58-63), a row of the chart (lines 87-90) and the result
  (lines 77-80).\<close>

record player_entry =
  name :: string
  url :: string
  uid :: "string option"
  status :: "string option"

record depth_row =
  position :: string
  players :: "player_entry option list"

record structured_data =
  formation :: string
  positions_and_players :: "depth_row list"

subsection \<open>Position labels (lines 26-38)\<close>

text \<open>Lines 31-34, for one row of the fixed-left table: the label, when the row has a
  \<^verbatim>\<open>statCell\<close> span. \<^verbatim>\<open>split()[0]\<close> raises when the span holds no word.\<close>

definition position_of_row :: "node \<Rightarrow> py_error + string list" where
  "position_of_row row =
     (case find_first row (\<lambda>n. is_tag ''span'' n \<and> has_attr ''data-testid'' ''statCell'' n) of
        None \<Rightarrow> Inr []
      | Some position_span \<Rightarrow>
          (case first_word (text_of position_span) of
             Inl e \<Rightarrow> Inl e
           | Inr w \<Rightarrow> Inr [strip w]))"

text \<open>Lines 27-34. \<^verbatim>\<open>left_table.find('tbody')\<close> is \<^verbatim>\<open>None\<close> for a table without body,
  and the call of \<^verbatim>\<open>find_all\<close> on it raises \<^verbatim>\<open>AttributeError\<close>.\<close>

definition extract_positions :: "node \<Rightarrow> py_error + string list" where
  "extract_positions soup =
     (case find_first soup (\<lambda>n. is_tag ''table'' n \<and> has_class ''Table--fixed-left'' n) of
        None \<Rightarrow> Inr []
      | Some left_table \<Rightarrow>
          (case find_first left_table (is_tag ''tbody'') of
             None \<Rightarrow> Inl AttributeError
           | Some tbody \<Rightarrow>
               (case mapM position_of_row
                       (find_all tbody (\<lambda>n. is_tag ''tr'' n \<and> has_class ''Table__TR'' n)) of
                  Inl e \<Rightarrow> Inl e
                | Inr ps \<Rightarrow> Inr (concat ps))))"

subsection \<open>Player cells (lines 40-73)\<close>

text \<open>Lines 55-56: the explicit status element of a cell.\<close>

definition nfl_injury_status :: "node \<Rightarrow> string option" where
  "nfl_injury_status cell =
     (case find_first cell (\<lambda>n. is_tag ''span'' n \<and> has_class ''nfl-injuries-status'' n) of
        None \<Rightarrow> None
      | Some injury_status_span \<Rightarrow>
          if strip (text_of injury_status_span) \<noteq> []
          then Some (strip (text_of injury_status_span)) else None)"

text \<open>Lines 49-69, one cell. \<^verbatim>\<open>player_link['href']\<close> raises \<^verbatim>\<open>KeyError\<close> for a link
  without target; a cell without link is an empty slot.\<close>

definition parse_cell :: "node \<Rightarrow> py_error + player_entry option" where
  "parse_cell cell =
     (case find_first cell (\<lambda>n. is_tag ''a'' n \<and> has_class ''AnchorLink'' n) of
        None \<Rightarrow> Inr None
      | Some player_link \<Rightarrow>
          (case map_of (attrs player_link) ''href'' of
             None \<Rightarrow> Inl KeyError
           | Some player_url \<Rightarrow>
               Inr (Some \<lparr>name = strip (text_of player_link), url = player_url,
                          uid = map_of (attrs player_link) ''data-player-uid'',
                          status = nfl_injury_status cell\<rparr>)))"

text \<open>Lines 44-70, inside the scroller.\<close>

definition extract_player_rows :: "node \<Rightarrow> py_error + player_entry option list list" where
  "extract_player_rows right_table_scroller =
     (case find_first right_table_scroller (is_tag ''table'') of
        None \<Rightarrow> Inr []
      | Some right_table \<Rightarrow>
          (case find_first right_table (is_tag ''tbody'') of
             None \<Rightarrow> Inl AttributeError
           | Some tbody \<Rightarrow>
               mapM (\<lambda>row. mapM parse_cell
                              (find_all row (\<lambda>n. is_tag ''td'' n \<and> has_class ''Table__TD'' n)))
                    (find_all tbody (\<lambda>n. is_tag ''tr'' n \<and> has_class ''Table__TR'' n))))"

subsection \<open>The record assembler (lines 75-92)\<close>

definition assemble :: "string \<Rightarrow> string list \<Rightarrow> player_entry option list list \<Rightarrow> structured_data" where
  "assemble formation_title positions player_data_rows =
     (let num_rows = min (length positions) (length player_data_rows)
      in \<lparr>formation = formation_title,
          positions_and_players =
            map (\<lambda>i. \<lparr>position = positions ! i, players = player_data_rows ! i\<rparr>) [0 ..< num_rows]\<rparr>)"

subsection \<open>\<^verbatim>\<open>parse_depth_chart_html\<close>\<close>

text \<open>The result is \<open>Inl e\<close> when the function raises \<open>e\<close>, \<open>Inr None\<close> when it returns
  \<^verbatim>\<open>None\<close>, and \<open>Inr (Some d)\<close> when it returns the dictionary \<open>d\<close>.\<close>

definition formation_title_of :: "node \<Rightarrow> string" where
  "formation_title_of soup =
     (case find_first soup (\<lambda>n. is_tag ''div'' n \<and> has_class ''Table__Title'' n) of
        Some title_div \<Rightarrow> strip (text_of title_div)
      | None \<Rightarrow> ''Unknown Formation'')"

definition parse_depth_chart_html :: "node \<Rightarrow> py_error + structured_data option" where
  "parse_depth_chart_html soup =
     (let formation_title = formation_title_of soup in
      case extract_positions soup of
        Inl e \<Rightarrow> Inl e
      | Inr positions \<Rightarrow>
          if positions = [] then Inr None
          else
            (case find_first soup (\<lambda>n. is_tag ''div'' n \<and> has_class ''Table__Scroller'' n) of
               None \<Rightarrow> Inr None
             | Some right_table_scroller \<Rightarrow>
                 (case extract_player_rows right_table_scroller of
                    Inl e \<Rightarrow> Inl e
                  | Inr player_data_rows \<Rightarrow>
                      Inr (Some (assemble formation_title positions player_data_rows)))))"

subsection \<open>\<^verbatim>\<open>convert_to_csv\<close> (lines 123-166)\<close>

text \<open>The rows handed to \<^verbatim>\<open>csv.writer\<close>; \<^verbatim>\<open>None\<close> for no parsed data.\<close>

definition csv_header :: "string list" where
  "csv_header = [''TeamName'', ''Position'', ''Depth'', ''PlayerName'', ''PlayerURL'',
     ''PlayerUID'', ''InjuryStatus'']"

definition or_empty :: "string option \<Rightarrow> string" where
  "or_empty x = (case x of None \<Rightarrow> [] | Some s \<Rightarrow> s)"

definition csv_player_row :: "string \<Rightarrow> string \<Rightarrow> nat \<times> player_entry option \<Rightarrow> string list" where
  "csv_player_row team_name position_name dp =
     (case dp of
        (depth, Some player) \<Rightarrow>
          [team_name, position_name, str_nat depth, name player, url player,
           or_empty (uid player), or_empty (status player)]
      | (depth, None) \<Rightarrow>
          [team_name, position_name, str_nat depth, [], [], [], ''Empty Slot''])"

definition convert_to_csv :: "structured_data option \<Rightarrow> string \<Rightarrow> string list list option" where
  "convert_to_csv parsed_data team_name =
     (case parsed_data of
        None \<Rightarrow> None
      | Some d \<Rightarrow>
          Some (csv_header #
                concat (map (\<lambda>pos_entry. map (csv_player_row team_name (position pos_entry))
                                             (enumerate_from 1 (players pos_entry)))
                            (positions_and_players d))))"

text \<open>The main loop, for one file (lines 206-243): the rows of the CSV file written for
  it, or \<open>None\<close> when none is written. For parsed data that is not \<^verbatim>\<open>None\<close> the loop
  first writes the XML file (lines 211-223); that step, which can raise, is not part
  of this function.\<close>

definition process_html :: "node \<Rightarrow> string \<Rightarrow> py_error + string list list option" where
  "process_html soup team_name =
     (case parse_depth_chart_html soup of
        Inl e \<Rightarrow> Inl e
      | Inr parsed_data \<Rightarrow> Inr (convert_to_csv parsed_data team_name))"

text \<open>What \<^verbatim>\<open>csv.DictReader\<close> makes of a line of such a file in the consolidator: the
  columns by name.\<close>

definition read_csv_row :: "string list \<Rightarrow> csv_row" where
  "read_csv_row cells =
     (let col = (\<lambda>i. if i < length cells then Some (cells ! i) else None)
      in \<lparr>row_PlayerUID = col 5, row_PlayerName = col 3, row_PlayerURL = col 4,
          row_InjuryStatus = col 6, row_Position = col 1, row_Depth = col 2\<rparr>)"

section \<open>The MLB depth-chart scraper: \<^verbatim>\<open>scrapeMLB.py\<close>\<close>

subsection \<open>Substitution\<close>

text \<open>
  \<^verbatim>\<open>re.sub(pattern, '', s)\<close> and \<^verbatim>\<open>s.replace(old, '')\<close> scan the string from the left;
  where the matcher succeeds the matched characters are dropped and the scan goes on
  behind them. The matcher gives the rest of the string behind its match; the counter
  is the number of matched characters still to drop.
\<close>

fun delete_matches :: "(string \<Rightarrow> string option) \<Rightarrow> nat \<Rightarrow> string \<Rightarrow> string" where
  "delete_matches m k [] = []"
| "delete_matches m (Suc k) (c # cs) = delete_matches m k cs"
| "delete_matches m 0 (c # cs) =
     (case m (c # cs) of
        Some rest \<Rightarrow> delete_matches m (length cs - length rest) cs
      | None \<Rightarrow> c # delete_matches m 0 cs)"

text \<open>A literal: \<^verbatim>\<open>old\<close> at the start of the string.\<close>

definition match_literal :: "string \<Rightarrow> string \<Rightarrow> string option" where
  "match_literal old s = (if old \<noteq> [] \<and> startswith s old then Some (drop (length old) s) else None)"

text \<open>
  The pattern of line 112,
  \<^verbatim>\<open>\s*<span[^>]*class="nfl-injuries-status[^>]*>\s*</span>\<close>, at the start of the
  string: white space, the opening of a span whose attributes (the characters before
  the next \<^verbatim>\<open>>\<close>) hold the class, white space, the closing tag.
\<close>

definition status_class_attr :: string where
  "status_class_attr = ''class='' @ [CHR 0x22] @ ''nfl-injuries-status''"

definition match_status_span :: "string \<Rightarrow> string option" where
  "match_status_span s =
     (let s1 = dropWhile is_space s in
      if startswith s1 ''<span'' then
        (let s2 = drop 5 s1;
             hdr = takeWhile (\<lambda>c. c \<noteq> CHR ''>'') s2;
             s3 = dropWhile (\<lambda>c. c \<noteq> CHR ''>'') s2
         in if contains hdr status_class_attr \<and> s3 \<noteq> [] then
              (let s4 = dropWhile is_space (tl s3)
               in if startswith s4 ''</span>'' then Some (drop 7 s4) else None)
            else None)
      else None)"

text \<open>Lines 109-113: the position label of a row of the position table.\<close>

definition statCell :: "node \<Rightarrow> bool" where
  "statCell n = (is_tag ''span'' n \<and> has_attr ''data-testid'' ''statCell'' n)"

definition mlb_position_name :: "node \<Rightarrow> string" where
  "mlb_position_name position_row =
     (let position_name =
            (case find_first position_row statCell of
               Some position_name_tag \<Rightarrow> strip (text_of position_name_tag)
             | None \<Rightarrow> ''Unknown Position'')
      in strip (delete_matches (match_literal ''<!-- -->'') 0
                  (delete_matches match_status_span 0 position_name)))"

subsection \<open>Records\<close>

text \<open>The dictionary of one player, lines 138-147. The roster scrapers of the NBA and
  the NHL build the same dictionary with more keys.\<close>

record roster_player =
  team_name :: string
  team_abbrev :: string
  section_title :: string
  position_name :: string
  player_name :: string
  depth_label :: string
  player_url :: "string option"
  player_status :: "string option"

subsection \<open>Depth labels (lines 71-86)\<close>

definition header_label :: "node \<Rightarrow> string list" where
  "header_label th =
     (case find_first th (\<lambda>n. is_tag ''span'' n \<and> has_attr ''data-testid'' ''headerTable'' n) of
        None \<Rightarrow> []
      | Some header_span \<Rightarrow>
          if strip (text_of header_span) \<noteq> [] then [strip (text_of header_span)] else [])"

definition mlb_depth_levels :: "node \<Rightarrow> string list" where
  "mlb_depth_levels player_data_table =
     (let depth_levels =
            (case find_first player_data_table (is_tag ''thead'') of
               None \<Rightarrow> []
             | Some header_row \<Rightarrow> concat (map header_label (find_all header_row (is_tag ''th''))))
      in if depth_levels = [] then map (\<lambda>i. ''Depth '' @ str_nat (i + 1)) [0 ..< 5]
         else depth_levels)"

subsection \<open>Status and cells (lines 115-148)\<close>

text \<open>Lines 122-127: the status of a cell, from its status span only.\<close>

definition mlb_player_status :: "node \<Rightarrow> string option" where
  "mlb_player_status player_cell =
     (case find_first player_cell
             (\<lambda>n. is_tag ''span'' n \<and> class_test (\<lambda>x. contains x ''nfl-injuries-status'') n) of
        None \<Rightarrow> None
      | Some status_span \<Rightarrow>
          if strip (text_of status_span) \<noteq> [] then Some (strip (text_of status_span)) else None)"

definition anchor_link :: "node \<Rightarrow> bool" where
  "anchor_link n = (is_tag ''a'' n \<and> has_class ''AnchorLink'' n)"

text \<open>Lines 117-148, one cell with its index. The fields of the record have the names
  of the dictionary's keys, so the local variables \<^verbatim>\<open>player_name\<close>, \<^verbatim>\<open>player_url\<close> and
  \<^verbatim>\<open>player_status\<close> are \<open>pl_name\<close>, \<open>pl_url\<close> and \<open>pl_status\<close> here, and the
  arguments \<^verbatim>\<open>team_name\<close>, \<^verbatim>\<open>team_abbrev\<close> are \<open>tname\<close>, \<open>tabbrev\<close>.\<close>

definition mlb_parse_cell ::
  "string \<Rightarrow> string \<Rightarrow> string \<Rightarrow> string \<Rightarrow> string list \<Rightarrow> nat \<times> node \<Rightarrow> roster_player list" where
  "mlb_parse_cell tname tabbrev title pname depth_levels jc =
     (case jc of (j, player_cell) \<Rightarrow>
        (let player_name_tag = find_first player_cell anchor_link;
             pl_name = (case player_name_tag of
                          Some t \<Rightarrow> Some (strip (text_of t)) | None \<Rightarrow> None);
             pl_url = (case player_name_tag of
                         Some t \<Rightarrow> map_of (attrs t) ''href'' | None \<Rightarrow> None);
             pl_status = mlb_player_status player_cell;
             cell_text_content = get_text_stripped player_cell;
             pl_name = (if cell_text_content = ''-'' \<or> \<not> truthy pl_name then None else pl_name)
         in case pl_name of
              None \<Rightarrow> []
            | Some nm \<Rightarrow>
                if nm = [] then []
                else [\<lparr>team_name = tname, team_abbrev = tabbrev, section_title = title,
                       position_name = pname, player_name = nm,
                       depth_label = (if j < length depth_levels then depth_levels ! j
                                      else ''Depth '' @ str_nat (j + 1)),
                       player_url = pl_url, player_status = pl_status\<rparr>]))"

text \<open>Lines 103-148: one position row with the player row of the same index.\<close>

definition mlb_parse_row ::
  "string \<Rightarrow> string \<Rightarrow> string \<Rightarrow> string list \<Rightarrow> node \<Rightarrow> node \<Rightarrow> roster_player list" where
  "mlb_parse_row tname tabbrev title depth_levels position_row player_row =
     concat (map (mlb_parse_cell tname tabbrev title (mlb_position_name position_row) depth_levels)
                 (enumerate_from 0 (find_all player_row (is_tag ''td''))))"

text \<open>Lines 98-148: the loop over \<^verbatim>\<open>range(min(len(position_rows), len(player_rows)))\<close>.\<close>

definition mlb_assemble ::
  "string \<Rightarrow> string \<Rightarrow> string \<Rightarrow> string list \<Rightarrow> node list \<Rightarrow> node list \<Rightarrow> roster_player list" where
  "mlb_assemble tname tabbrev title depth_levels position_rows player_rows =
     concat (map (\<lambda>i. mlb_parse_row tname tabbrev title depth_levels
                         (position_rows ! i) (player_rows ! i))
                 [0 ..< min (length position_rows) (length player_rows)])"

subsection \<open>\<^verbatim>\<open>parse_mlb_depth_chart_data\<close>\<close>

text \<open>
  The argument is the parsed container. The guard of line 50 is on the markup before
  parsing; empty markup parses to a document without tables, for which line 62 returns
  the same empty list.
\<close>

definition parse_mlb_depth_chart_data :: "node \<Rightarrow> string \<Rightarrow> string \<Rightarrow> roster_player list" where
  "parse_mlb_depth_chart_data soup tname tabbrev =
     (let title = (case find_first soup (\<lambda>n. is_tag ''div'' n \<and> has_class ''Table__Title'' n) of
                     Some table_title_tag \<Rightarrow> strip (text_of table_title_tag)
                   | None \<Rightarrow> ''MLB Depth Chart'');
          tables = find_all soup (is_tag ''table'')
      in case tables of
           position_table # player_data_table # others \<Rightarrow>
             (let depth_levels = mlb_depth_levels player_data_table in
              case (find_first position_table (is_tag ''tbody''),
                    find_first player_data_table (is_tag ''tbody'')) of
                (Some position_tbody, Some player_tbody) \<Rightarrow>
                  mlb_assemble tname tabbrev title depth_levels
                    (find_all position_tbody (is_tag ''tr''))
                    (find_all player_tbody (is_tag ''tr''))
              | _ \<Rightarrow> [])
         | _ \<Rightarrow> [])"

subsection \<open>Deduplication (lines 224-283)\<close>

definition depth_rank_map :: "string \<rightharpoonup> nat" where
  "depth_rank_map = map_of
     [(''Starter'', 1), (''1st'', 1), (''2nd'', 2), (''3rd'', 3), (''4th'', 4), (''5th'', 5),
      (''6th'', 6), (''Depth 1'', 1), (''Depth 2'', 2), (''Depth 3'', 3), (''Depth 4'', 4),
      (''Depth 5'', 5), (''Depth 6'', 6), (''P'', 1), (''RP'', 2), (''CL'', 3)]"

definition DEFAULT_DEPTH_RANK :: nat where
  "DEFAULT_DEPTH_RANK = 999"

text \<open>\<^verbatim>\<open>final_players_data\<close>: a dictionary from \<^verbatim>\<open>(player_name, team_name)\<close> to the rank
  and the record kept for that key.\<close>

type_synonym final_players = "((string \<times> string) \<times> (nat \<times> roster_player)) list"

definition player_key :: "roster_player \<Rightarrow> string \<times> string" where
  "player_key player_data = (player_name player_data, team_name player_data)"

definition dedup_step :: "final_players \<Rightarrow> roster_player \<Rightarrow> final_players" where
  "dedup_step final_players_data player_data =
     (let current_depth_rank = dict_get depth_rank_map (depth_label player_data) DEFAULT_DEPTH_RANK
      in case map_of final_players_data (player_key player_data) of
           None \<Rightarrow>
             AList.update (player_key player_data) (current_depth_rank, player_data)
               final_players_data
         | Some (stored_depth_rank, stored_player_data) \<Rightarrow>
             if current_depth_rank < stored_depth_rank
             then AList.update (player_key player_data) (current_depth_rank, player_data)
                    final_players_data
             else final_players_data)"

definition deduplicate :: "roster_player list \<Rightarrow> final_players" where
  "deduplicate all_raw_players_data = foldl dedup_step [] all_raw_players_data"

definition deduplicated_players :: "roster_player list \<Rightarrow> roster_player list" where
  "deduplicated_players all_raw_players_data =
     map (\<lambda>(key, rank, data). data) (deduplicate all_raw_players_data)"

section \<open>The roster scrapers: \<^verbatim>\<open>scrapeNBA.py\<close> and \<^verbatim>\<open>scrapeNHL.py\<close>\<close>

subsection \<open>Status detection\<close>

text \<open>The status span of both scrapers: a span with a class that contains
  \<^verbatim>\<open>injuries-status\<close> or \<^verbatim>\<open>n8\<close>.\<close>

definition roster_status_span :: "node \<Rightarrow> node option" where
  "roster_status_span cell =
     find_first cell
       (\<lambda>n. is_tag ''span'' n \<and>
             class_test (\<lambda>x. contains x ''injuries-status'' \<or> contains x ''n8'') n)"

text \<open>\<^verbatim>\<open>scrapeNBA.py\<close>, lines 133-140: the fallback, a parenthesized token that ends the
  text of the cell.\<close>

definition nba_fallback_status :: "node \<Rightarrow> string option" where
  "nba_fallback_status name_cell_content =
     (let cell_text_content = get_text_stripped name_cell_content in
      case search_parenthesized cell_text_content of
        None \<Rightarrow> None
      | Some group1 \<Rightarrow>
          (let potential_status = strip group1
           in if \<not> isdigit potential_status \<and> length potential_status \<le> 10
              then Some potential_status else None))"

text \<open>\<^verbatim>\<open>scrapeNBA.py\<close>, lines 128-140; the argument is \<^verbatim>\<open>name_cell_content\<close>.\<close>

definition nba_player_status :: "node \<Rightarrow> string option" where
  "nba_player_status name_cell_content =
     (case roster_status_span name_cell_content of
        Some status_span \<Rightarrow>
          if strip (text_of status_span) \<noteq> [] then Some (strip (text_of status_span))
          else nba_fallback_status name_cell_content
      | None \<Rightarrow> nba_fallback_status name_cell_content)"

text \<open>\<^verbatim>\<open>scrapeNHL.py\<close>, the same lines of \<^verbatim>\<open>parse_nhl_roster_data\<close>; the argument is
  \<^verbatim>\<open>player_info_cell\<close>.\<close>

definition nhl_fallback_status :: "node \<Rightarrow> string option" where
  "nhl_fallback_status player_info_cell =
     (let cell_text_content = get_text_stripped player_info_cell in
      case search_parenthesized cell_text_content of
        None \<Rightarrow> None
      | Some group1 \<Rightarrow>
          (let potential_status = strip group1
           in if length potential_status \<le> 10 \<and> \<not> isdigit potential_status
              then Some potential_status else None))"

definition nhl_player_status :: "node \<Rightarrow> string option" where
  "nhl_player_status player_info_cell =
     (case roster_status_span player_info_cell of
        Some status_span \<Rightarrow>
          if strip (text_of status_span) \<noteq> [] then Some (strip (text_of status_span))
          else nhl_fallback_status player_info_cell
      | None \<Rightarrow> nhl_fallback_status player_info_cell)"

subsection \<open>Records\<close>

record bio_player = roster_player +
  age :: "string option"
  height :: "string option"
  weight :: "string option"
  birth_place :: "string option"
  birthdate :: "string option"

record nba_player = bio_player +
  experience :: "string option"
  college :: "string option"
  salary :: "string option"

record nhl_player = bio_player +
  shot :: "string option"

subsection \<open>\<^verbatim>\<open>parse_nba_roster_data\<close>\<close>

definition position_group_mapping :: "string \<rightharpoonup> string" where
  "position_group_mapping = map_of
     [(''Guards'', ''G''), (''Forwards'', ''F''), (''Centers'', ''C''),
      (''Team Roster'', ''Roster''), (''Players'', ''PLYR'')]"

text \<open>Line 82. \<^verbatim>\<open>find_all('thead')[0]\<close> raises \<^verbatim>\<open>IndexError\<close> for a table without
  head.\<close>

definition nba_headers :: "node \<Rightarrow> py_error + string list" where
  "nba_headers inner_table =
     (case find_all inner_table (is_tag ''thead'') of
        [] \<Rightarrow> Inl IndexError
      | thead # others \<Rightarrow>
          Inr (concat (map (\<lambda>th. case find_first th (is_tag ''span'') of
                                   None \<Rightarrow> []
                                 | Some sp \<Rightarrow> [strip (text_of sp)])
                           (find_all thead (is_tag ''th'')))))"

text \<open>Lines 85-92: the column of a header, the last one with that text; \<open>None\<close> stands
  for \<^verbatim>\<open>-1\<close>.\<close>

definition header_index :: "string list \<Rightarrow> string \<Rightarrow> nat option" where
  "header_index headers key =
     (case filter (\<lambda>i. headers ! i = key) (rev [0 ..< length headers]) of
        [] \<Rightarrow> None
      | i # others \<Rightarrow> Some i)"

text \<open>The pattern of lines 144-172:
  \<^verbatim>\<open>cols[idx].div.text.strip()\<close> under \<^verbatim>\<open>idx != -1 and len(cols) > idx and cols[idx].div\<close>.\<close>

definition div_text :: "node list \<Rightarrow> nat option \<Rightarrow> string option" where
  "div_text cols idx =
     (case idx of
        None \<Rightarrow> None
      | Some i \<Rightarrow>
          if i < length cols then
            (case find_first (cols ! i) (is_tag ''div'') of
               Some d \<Rightarrow> Some (strip (text_of d))
             | None \<Rightarrow> None)
          else None)"

text \<open>Lines 118-140: name, target and status from the name column.
  \<^verbatim>\<open>player_name_tag['href']\<close> raises \<^verbatim>\<open>KeyError\<close> for a link without target.\<close>

definition nba_name_cell ::
  "node list \<Rightarrow> nat option \<Rightarrow> py_error + (string option \<times> string option \<times> string option)" where
  "nba_name_cell cols name_cell_idx =
     (case name_cell_idx of
        None \<Rightarrow> Inr (None, None, None)
      | Some i \<Rightarrow>
          if i < length cols then
            (case find_first (cols ! i) (is_tag ''div'') of
               None \<Rightarrow> Inr (None, None, None)
             | Some name_cell_content \<Rightarrow>
                 (case find_first name_cell_content anchor_link of
                    None \<Rightarrow> Inr (None, None, None)
                  | Some player_name_tag \<Rightarrow>
                      (case map_of (attrs player_name_tag) ''href'' of
                         None \<Rightarrow> Inl KeyError
                       | Some href \<Rightarrow>
                           Inr (Some (strip (text_of player_name_tag)), Some href,
                                nba_player_status name_cell_content))))
          else Inr (None, None, None))"

text \<open>Lines 101-193: one row of the table body.\<close>

definition nba_parse_row ::
  "string \<Rightarrow> string \<Rightarrow> string \<Rightarrow> string \<Rightarrow> string list \<Rightarrow> node \<Rightarrow> py_error + nba_player list" where
  "nba_parse_row tname tabbrev title general_position_group headers row =
     (let cols = find_all row (is_tag ''td'') in
      case nba_name_cell cols (header_index headers ''Name'') of
        Inl e \<Rightarrow> Inl e
      | Inr (pl_name, pl_url, pl_status) \<Rightarrow>
          (let specific_position_from_col = div_text cols (header_index headers ''POS'');
               player_age = div_text cols (header_index headers ''Age'');
               player_height = div_text cols (header_index headers ''HT'');
               player_weight = div_text cols (header_index headers ''WT'');
               player_college = div_text cols (header_index headers ''College'');
               player_salary = div_text cols (header_index headers ''Salary'')
           in if truthy pl_name then
                Inr [\<lparr>team_name = tname, team_abbrev = tabbrev, section_title = title,
                      position_name = (if truthy specific_position_from_col
                                       then or_empty specific_position_from_col
                                       else general_position_group),
                      player_name = or_empty pl_name, depth_label = ''Roster'',
                      player_url = pl_url, player_status = pl_status,
                      age = player_age, height = player_height, weight = player_weight,
                      birth_place = None, birthdate = None, experience = None,
                      college = player_college, salary = player_salary\<rparr>]
              else Inr []))"

text \<open>Lines 64-193: one table of the page.\<close>

definition nba_parse_table :: "string \<Rightarrow> string \<Rightarrow> node \<Rightarrow> py_error + nba_player list" where
  "nba_parse_table tname tabbrev soup =
     (let title = (case find_first soup (\<lambda>n. is_tag ''div'' n \<and> has_class ''Table__Title'' n) of
                     Some section_title_tag \<Rightarrow> strip (text_of section_title_tag)
                   | None \<Rightarrow> ''Roster'');
          general_position_group = dict_get position_group_mapping title ''Unknown''
      in case find_first soup (is_tag ''table'') of
           None \<Rightarrow> Inr []
         | Some inner_table \<Rightarrow>
             (case nba_headers inner_table of
                Inl e \<Rightarrow> Inl e
              | Inr headers \<Rightarrow>
                  (case find_first inner_table (is_tag ''tbody'') of
                     None \<Rightarrow> Inr []
                   | Some table_body \<Rightarrow>
                       (case mapM (nba_parse_row tname tabbrev title general_position_group headers)
                               (find_all table_body (is_tag ''tr'')) of
                          Inl e \<Rightarrow> Inl e
                        | Inr ps \<Rightarrow> Inr (concat ps)))))"

text \<open>The argument is the list of the parsed tables of the page.\<close>

definition parse_nba_roster_data :: "node list \<Rightarrow> string \<Rightarrow> string \<Rightarrow> py_error + nba_player list" where
  "parse_nba_roster_data raw_html_tables tname tabbrev =
     (case mapM (nba_parse_table tname tabbrev) raw_html_tables of
        Inl e \<Rightarrow> Inl e
      | Inr ps \<Rightarrow> Inr (concat ps))"

subsection \<open>\<^verbatim>\<open>parse_nhl_roster_data\<close>\<close>

definition position_mapping :: "string \<rightharpoonup> string" where
  "position_mapping = map_of
     [(''Centers'', ''C''), (''Left Wings'', ''LW''), (''Right Wings'', ''RW''),
      (''Defense'', ''D''), (''Goalies'', ''G''), (''Forwards'', ''F''), (''Players'', ''PLYR'')]"

text \<open>The name column is the second one; the link and its status.\<close>

definition nhl_name_cell ::
  "node \<Rightarrow> py_error + (string option \<times> string option \<times> string option)" where
  "nhl_name_cell player_info_cell =
     (case find_first player_info_cell anchor_link of
        None \<Rightarrow> Inr (None, None, None)
      | Some player_name_tag \<Rightarrow>
          (case map_of (attrs player_name_tag) ''href'' of
             None \<Rightarrow> Inl KeyError
           | Some href \<Rightarrow>
               Inr (Some (strip (text_of player_name_tag)), Some href,
                    nhl_player_status player_info_cell)))"

definition nhl_parse_row ::
  "string \<Rightarrow> string \<Rightarrow> string \<Rightarrow> string \<Rightarrow> node \<Rightarrow> py_error + nhl_player list" where
  "nhl_parse_row tname tabbrev title pname row =
     (let cols = find_all row (is_tag ''td'') in
      if 1 < length cols then
        (case nhl_name_cell (cols ! 1) of
           Inl e \<Rightarrow> Inl e
         | Inr (pl_name, pl_url, pl_status) \<Rightarrow>
             if truthy pl_name then
               Inr [\<lparr>team_name = tname, team_abbrev = tabbrev, section_title = title,
                     position_name = pname, player_name = or_empty pl_name,
                     depth_label = ''Roster'', player_url = pl_url, player_status = pl_status,
                     age = div_text cols (Some 2), height = div_text cols (Some 3),
                     weight = div_text cols (Some 4), birth_place = div_text cols (Some 6),
                     birthdate = div_text cols (Some 7), shot = div_text cols (Some 5)\<rparr>]
             else Inr [])
      else Inr [])"

definition nhl_parse_table :: "string \<Rightarrow> string \<Rightarrow> node \<Rightarrow> py_error + nhl_player list" where
  "nhl_parse_table tname tabbrev soup =
     (let title = (case find_first soup (\<lambda>n. is_tag ''div'' n \<and> has_class ''Table__Title'' n) of
                     Some section_title_tag \<Rightarrow> strip (text_of section_title_tag)
                   | None \<Rightarrow> ''Unknown Section'');
          pname = dict_get position_mapping title ''Unknown''
      in case find_first soup (is_tag ''table'') of
           None \<Rightarrow> Inr []
         | Some inner_table \<Rightarrow>
             (case find_first inner_table (is_tag ''tbody'') of
                None \<Rightarrow> Inr []
              | Some table_body \<Rightarrow>
                  (case mapM (nhl_parse_row tname tabbrev title pname)
                          (find_all table_body (is_tag ''tr'')) of
                     Inl e \<Rightarrow> Inl e
                   | Inr ps \<Rightarrow> Inr (concat ps))))"

definition parse_nhl_roster_data :: "node list \<Rightarrow> string \<Rightarrow> string \<Rightarrow> py_error + nhl_player list" where
  "parse_nhl_roster_data raw_html_tables tname tabbrev =
     (case mapM (nhl_parse_table tname tabbrev) raw_html_tables of
        Inl e \<Rightarrow> Inl e
      | Inr ps \<Rightarrow> Inr (concat ps))"

section \<open>The master table: \<^verbatim>\<open>master_combine.py\<close>\<close>

text \<open>\<^verbatim>\<open>s.endswith(suffix)\<close>.\<close>

definition endswith :: "string \<Rightarrow> string \<Rightarrow> bool" where
  "endswith s suf = startswith (rev s) (rev suf)"

text \<open>
  Lines 30-49, the loop over the sorted files, each given by the rows that
  \<^verbatim>\<open>csv.reader\<close> yields: the rows written to the master file. \<^verbatim>\<open>next(reader)\<close> raises
  \<^verbatim>\<open>StopIteration\<close> on a file without rows; line 58 catches it, and the master file
  keeps what was written before.
\<close>

fun write_master :: "bool \<Rightarrow> string list list list \<Rightarrow> string list list" where
  "write_master header_written [] = []"
| "write_master header_written ([] # files) = []"
| "write_master header_written ((hdr # rows) # files) =
     (if header_written then [] else [hdr]) @ rows @ write_master True files"

text \<open>
  \<^verbatim>\<open>create_master_depth_chart_csv\<close>: \<open>listing\<close> is what \<^verbatim>\<open>os.listdir\<close> returns, in any
  order, and \<open>content\<close> gives the rows of each file. The result is the content of the
  master file, or \<open>None\<close> when the function returns at line 21 without writing one.
\<close>

definition create_master_depth_chart_csv ::
  "(string \<Rightarrow> string list list) \<Rightarrow> string list \<Rightarrow> string \<Rightarrow> string list list option" where
  "create_master_depth_chart_csv content listing output_filename =
     (let all_files = filter (\<lambda>f. endswith f ''.csv'' \<and> f \<noteq> output_filename) listing
      in if all_files = [] then None
         else Some (write_master False (map content (sort all_files))))"

section \<open>Properties of the consolidator\<close>

lemmas combine_simps = combine_team_def group_files_def consolidate_def sorted_file_types_def
  unit_priority_def unit_priority_map_def dict_get_def process_file_def process_row_def skip_row_def
  truthy_def lookup_player_def default_player_def update_info_def add_position_def csv_line_def
  output_rows_def output_row_def sort_positions_def get_position_sort_key_def
  special_teams_position_order_def pos_at_def pos_name_def pos_depth_def header_def

lemma distinct_add_position:
  "distinct (all_positions p) \<Longrightarrow> distinct (all_positions (add_position u p row))"
  by (auto simp: add_position_def split: option.splits)

lemma all_positions_update_info [simp]:
  "all_positions (update_info p k row) = all_positions p"
  by (simp add: update_info_def)

lemma positions_distinct_update:
  "positions_distinct cp \<Longrightarrow> distinct (all_positions p) \<Longrightarrow>
   positions_distinct (AList.update k p cp)"
  by (induction cp) (auto simp: positions_distinct_def)

lemma positions_distinct_lookup:
  "positions_distinct cp \<Longrightarrow> distinct (all_positions (lookup_player t cp k))"
  by (induction cp)
     (auto simp: positions_distinct_def lookup_player_def default_player_def split: option.splits)

lemma positions_distinct_process_row:
  "positions_distinct cp \<Longrightarrow> positions_distinct (process_row t u cp row)"
  by (simp add: process_row_def Let_def positions_distinct_update positions_distinct_lookup
        distinct_add_position split: option.splits)

lemma positions_distinct_process_file:
  "positions_distinct cp \<Longrightarrow> positions_distinct (process_file t u cp rows)"
  unfolding process_file_def
  by (induction rows arbitrary: cp) (simp_all add: positions_distinct_process_row)

lemma positions_distinct_foldl_files:
  "positions_distinct cp \<Longrightarrow>
   positions_distinct (foldl (\<lambda>cp sfx. process_file t (f sfx) cp (g sfx)) cp ks)"
  by (induction ks arbitrary: cp) (simp_all add: positions_distinct_process_file)

lemma positions_distinct_consolidate: "positions_distinct (consolidate t fi)"
  unfolding consolidate_def
  by (rule positions_distinct_foldl_files) (simp add: positions_distinct_def)


text \<open>
  C9. The position list of every consolidated player is free of duplicates: after all
  files of a team are folded in, after folding any rows into a state that has the
  property, and still after the final sort. A row whose tuple is already in a player's
  list leaves that player unchanged.
\<close>

theorem all_positions_no_duplicates:
  "positions_distinct (consolidate tn fi) \<and>
   (positions_distinct cp \<longrightarrow> positions_distinct (process_file tn u cp rows)) \<and>
   (positions_distinct cp \<longrightarrow>
      distinct (sort_positions (all_positions (lookup_player tn cp k)))) \<and>
   ((u, pn, d) \<in> set (all_positions p) \<and> row_Position row = Some pn \<and>
      row_Depth row = Some d \<longrightarrow> add_position u p row = p)"
proof (intro conjI impI)
  show "positions_distinct (consolidate tn fi)"
    by (rule positions_distinct_consolidate)
next
  assume "positions_distinct cp"
  then show "positions_distinct (process_file tn u cp rows)"
    by (rule positions_distinct_process_file)
next
  assume "positions_distinct cp"
  then show "distinct (sort_positions (all_positions (lookup_player tn cp k)))"
    by (simp add: sort_positions_def positions_distinct_lookup)
next
  assume "(u, pn, d) \<in> set (all_positions p) \<and> row_Position row = Some pn \<and>
      row_Depth row = Some d"
  then show "add_position u p row = p"
    by (simp add: add_position_def)
qed

theorem all_positions_no_duplicates_witness:
  "positions_distinct [] \<and>
   positions_distinct (process_file ''Team'' 1 []
     [csv_line ''u1'' ''A'' ''x'' [] ''QB'' ''1'', csv_line ''u1'' ''A'' ''x'' [] ''QB'' ''1'']) \<and>
   all_positions (lookup_player ''Team'' (process_file ''Team'' 1 []
     [csv_line ''u1'' ''A'' ''x'' [] ''QB'' ''1'', csv_line ''u1'' ''A'' ''x'' [] ''QB'' ''1''])
     ''u1'') = [(1, ''QB'', ''1'')]"
  using all_positions_no_duplicates [of "''Team''" "[]" "[]" 1
     "[csv_line ''u1'' ''A'' ''x'' [] ''QB'' ''1'', csv_line ''u1'' ''A'' ''x'' [] ''QB'' ''1'']"]
  by (simp add: positions_distinct_def process_file_def process_row_def skip_row_def truthy_def
        lookup_player_def default_player_def update_info_def add_position_def csv_line_def)

text \<open>Once a player has a name, no later row changes the stored status: no stored status
  is the placeholder that line 112 asks for.\<close>

lemma update_info_keeps_status:
  "truthy (PlayerName p) \<Longrightarrow> PlayerName p \<noteq> Some ''Empty Slot'' \<Longrightarrow>
   InjuryStatus p \<noteq> Some ''Empty Slot'' \<Longrightarrow> update_info p k row = p"
  by (simp add: update_info_def)

lemma update_info_no_placeholder:
  "InjuryStatus p \<noteq> Some ''Empty Slot'' \<Longrightarrow>
   InjuryStatus (update_info p k row) \<noteq> Some ''Empty Slot''"
  by (simp add: update_info_def)

text \<open>
  C1. The claim is that a player first seen with an empty status and seen later with
  the status Q ends with the status Q. The consolidator keeps the empty status of the
  first sighting: the player below is listed on offense without status and on special
  teams with the status Q, and the combined row has an empty status.
\<close>

theorem status_overwrite_missed:
  "combine_team ''T''
     [(''_offense.csv'', [csv_line ''u1'' ''A'' ''/a'' [] ''WR'' ''2'']),
      (''_special_teams.csv'', [csv_line ''u1'' ''A'' ''/a'' ''Q'' ''PR'' ''1''])]
   = [header,
      [Some ''T'', Some ''WR'', Some ''2'', Some ''A'', Some ''/a'', Some ''u1'', Some [],
       Some ''PR'', Some ''1'', Some [], Some []]]"
  by (simp add: combine_simps)

subsection \<open>The order of the files\<close>

lemma update_fresh: "k \<notin> fst ` set al \<Longrightarrow> AList.update k v al = al @ [(k, v)]"
  by (induction al) auto

lemma foldl_update_distinct:
  "distinct (map fst (acc @ l)) \<Longrightarrow> foldl (\<lambda>d (k, v). AList.update k v d) acc l = acc @ l"
proof (induction l arbitrary: acc)
  case Nil
  then show ?case by simp
next
  case (Cons kv l)
  obtain k v where kv: "kv = (k, v)" by (cases kv)
  from Cons.prems have fresh: "k \<notin> fst ` set acc" by (auto simp: kv)
  from Cons.prems have "distinct (map fst ((acc @ [(k, v)]) @ l))" by (simp add: kv)
  from Cons.IH [OF this] show ?case by (simp add: kv update_fresh [OF fresh])
qed

lemma group_files_distinct: "distinct (map fst l) \<Longrightarrow> group_files l = l"
  unfolding group_files_def using foldl_update_distinct [of "[]" l] by simp

lemma unit_priority_inj:
  "unit_priority_map a \<noteq> None \<Longrightarrow> unit_priority_map b \<noteq> None \<Longrightarrow>
   unit_priority a = unit_priority b \<Longrightarrow> a = b"
  by (auto simp: unit_priority_def unit_priority_map_def dict_get_def split: if_splits)

lemma filter_eq_distinct: "distinct xs \<Longrightarrow> k \<in> set xs \<Longrightarrow> filter (\<lambda>x. k = x) xs = [k]"
  by (induction xs) (auto simp: filter_empty_conv)

lemma sort_key_perm:
  fixes f :: "'a \<Rightarrow> 'b::linorder"
  assumes m: "mset ys = mset xs" and d: "distinct xs" and i: "inj_on f (set xs)"
  shows "sort_key f ys = sort_key f xs"
proof (rule properties_for_sort_key)
  show "mset (sort_key f xs) = mset ys" using m by simp
next
  show "sorted (map f (sort_key f xs))" by simp
next
  fix k assume "k \<in> set (sort_key f xs)"
  then have kx: "k \<in> set xs" by simp
  from m have sy: "set ys = set xs" by (rule mset_eq_setD)
  from m d have dy: "distinct ys" by (metis mset_eq_imp_distinct_iff)
  have "filter (\<lambda>x. f k = f x) (sort_key f xs) = filter (\<lambda>x. k = x) (sort_key f xs)"
    using i kx by (intro filter_cong) (auto dest: inj_onD)
  also have "\<dots> = [k]" using d kx by (intro filter_eq_distinct) simp_all
  also have "\<dots> = filter (\<lambda>x. k = x) ys" using dy kx sy by (simp add: filter_eq_distinct)
  also have "\<dots> = filter (\<lambda>x. f k = f x) ys"
    using i kx sy by (intro filter_cong) (auto dest: inj_onD)
  finally show "filter (\<lambda>x. f k = f x) (sort_key f xs) = filter (\<lambda>x. f k = f x) ys" .
qed

lemma valid_listing_perm: "valid_listing l \<Longrightarrow> mset l' = mset l \<Longrightarrow> valid_listing l'"
proof -
  assume v: "valid_listing l" and m: "mset l' = mset l"
  from m have mk: "mset (map fst l') = mset (map fst l)" by simp
  from mk have "set (map fst l') = set (map fst l)" by (rule mset_eq_setD)
  moreover from mk have "distinct (map fst l') = distinct (map fst l)"
    by (rule mset_eq_imp_distinct_iff)
  ultimately show ?thesis using v by (simp add: valid_listing_def list_all_iff)
qed

lemma consolidate_perm:
  assumes v: "valid_listing l" and m: "mset l' = mset l"
  shows "consolidate t l' = consolidate t l"
proof -
  from m have mk: "mset (map fst l') = mset (map fst l)" by simp
  from v have d: "distinct (map fst l)" by (simp add: valid_listing_def)
  from valid_listing_perm [OF v m] have d': "distinct (map fst l')" by (simp add: valid_listing_def)
  have inj: "inj_on unit_priority (set (map fst l))"
    using v by (auto simp: valid_listing_def list_all_iff intro!: inj_onI unit_priority_inj)
  have s: "sorted_file_types l' = sorted_file_types l"
    unfolding sorted_file_types_def by (rule sort_key_perm [OF mk d inj])
  from m have "set l' = set l" by (rule mset_eq_setD)
  with d d' have "map_of l' = map_of l" by (simp add: map_of_inject_set)
  with s show ?thesis by (simp add: consolidate_def)
qed

lemma combine_team_listing_order:
  assumes v: "valid_listing l" and m: "mset l' = mset l"
  shows "combine_team t l' = combine_team t l"
proof -
  from v have "group_files l = l" by (simp add: valid_listing_def group_files_distinct)
  moreover from valid_listing_perm [OF v m] have "group_files l' = l'"
    by (simp add: valid_listing_def group_files_distinct)
  ultimately show ?thesis by (simp add: combine_team_def consolidate_perm [OF v m])
qed

subsection \<open>The primary position\<close>

text \<open>The order of the embedded keys is Python's order of the keys, and the comparison
  never raises.\<close>

lemma sort_key_agrees_with_python:
  "py_tuple_less (py_sort_key t1) (py_sort_key t2)
   = Some (get_position_sort_key t1 < get_position_sort_key t2)"
  by (cases t1; cases t2)
     (auto simp: py_tuple_less_def py_sort_key_def get_position_sort_key_def)

lemma hd_sort_key_least:
  fixes f :: "'a \<Rightarrow> 'b::linorder"
  assumes "ps \<noteq> []"
  shows "hd (sort_key f ps) \<in> set ps \<and> (\<forall>t \<in> set ps. f (hd (sort_key f ps)) \<le> f t)"
proof -
  obtain h r where hr: "sort_key f ps = h # r"
    using assms by (cases "sort_key f ps") (auto dest: arg_cong [where f = length])
  have "set (h # r) = set ps" unfolding hr [symmetric] by simp
  moreover have "sorted (map f (h # r))" unfolding hr [symmetric] by simp
  ultimately show ?thesis unfolding hr by auto
qed

lemma primary_of_output_row:
  assumes "all_positions p \<noteq> []"
  shows "output_row p ! 1 = Some (fst (snd (hd (sort_positions (all_positions p))))) \<and>
         output_row p ! 2 = Some (snd (snd (hd (sort_positions (all_positions p)))))"
proof -
  from assms have "sort_positions (all_positions p) \<noteq> []"
    by (auto simp: sort_positions_def dest: arg_cong [where f = length])
  then show ?thesis
    by (cases "sort_positions (all_positions p)")
       (auto simp: output_row_def Let_def pos_at_def pos_name_def pos_depth_def)
qed

lemma primary_is_least:
  assumes "all_positions p \<noteq> []"
  shows "\<exists>t \<in> set (all_positions p).
           output_row p ! 1 = Some (fst (snd t)) \<and> output_row p ! 2 = Some (snd (snd t)) \<and>
           (\<forall>t' \<in> set (all_positions p). get_position_sort_key t \<le> get_position_sort_key t')"
  using hd_sort_key_least [OF assms, of get_position_sort_key] primary_of_output_row [OF assms]
  by (auto simp: sort_positions_def)

lemma primary_of_two:
  assumes s: "set (all_positions p) = {a, b}"
    and n: "\<not> get_position_sort_key b \<le> get_position_sort_key a"
  shows "output_row p ! 1 = Some (fst (snd a)) \<and> output_row p ! 2 = Some (snd (snd a))"
proof -
  from s have ne: "all_positions p \<noteq> []" by auto
  from primary_is_least [OF ne] obtain t where
    t: "t \<in> set (all_positions p)" and
    o: "output_row p ! 1 = Some (fst (snd t)) \<and> output_row p ! 2 = Some (snd (snd t))" and
    le: "\<forall>t' \<in> set (all_positions p). get_position_sort_key t \<le> get_position_sort_key t'"
    by blast
  from le s have "get_position_sort_key t \<le> get_position_sort_key a" by simp
  with n have "t \<noteq> b" by auto
  with t s have "t = a" by auto
  with o show ?thesis by simp
qed




lemma key_P: "get_position_sort_key (3, ''P'', d) = (3, 2, [], d)"
  by (simp add: get_position_sort_key_def unit_priority_map_def dict_get_def
        special_teams_position_order_def)

lemma key_H: "get_position_sort_key (3, ''H'', d) = (3, 3, [], d)"
  by (simp add: get_position_sort_key_def unit_priority_map_def dict_get_def
        special_teams_position_order_def)

lemma primary_P_H:
  assumes "set (all_positions p) = {(3, ''P'', d1), (3, ''H'', d2)}"
  shows "output_row p ! 1 = Some ''P'' \<and> output_row p ! 2 = Some d1"
proof -
  have "\<not> get_position_sort_key (3, ''H'', d2) \<le> get_position_sort_key (3, ''P'', d1)"
    unfolding key_P key_H by simp
  from primary_of_two [OF assms this] show ?thesis by simp
qed


lemma key_less_iff:
  "get_position_sort_key (u1, p1, d1) < get_position_sort_key (u2, p2, d2) \<longleftrightarrow>
     u1 < u2 \<or>
     (u1 = u2 \<and>
      (if u1 = 3
       then dict_get special_teams_position_order p1 999 < dict_get special_teams_position_order p2 999 \<or>
            (dict_get special_teams_position_order p1 999 = dict_get special_teams_position_order p2 999 \<and>
             d1 < d2)
       else p1 < p2 \<or> (p1 = p2 \<and> d1 < d2)))"
  by (auto simp: get_position_sort_key_def unit_priority_map_def dict_get_def)

lemma sort_positions_sorted:
  "mset (sort_positions ps) = mset ps \<and> sorted (map get_position_sort_key (sort_positions ps))"
  by (simp add: sort_positions_def)

lemma sort_positions_stable:
  "filter (\<lambda>t. get_position_sort_key t = k) (sort_positions ps)
   = filter (\<lambda>t. get_position_sort_key t = k) ps"
  unfolding sort_positions_def by (rule sort_key_stable)








subsection \<open>Positions on special teams\<close>

lemma special_teams_order_values:
  "dict_get special_teams_position_order ''PK'' 999 = 1 \<and>
   dict_get special_teams_position_order ''P'' 999 = 2 \<and>
   dict_get special_teams_position_order ''H'' 999 = 3 \<and>
   dict_get special_teams_position_order ''LS'' 999 = 4 \<and>
   dict_get special_teams_position_order ''PR'' 999 = 5 \<and>
   dict_get special_teams_position_order ''KR'' 999 = 6"
  by (simp add: special_teams_position_order_def dict_get_def)

lemma listed_order_le_6:
  "special_teams_position_order q \<noteq> None \<Longrightarrow> dict_get special_teams_position_order q 999 \<le> 6"
  by (auto simp: special_teams_position_order_def dict_get_def split: if_splits)

lemma unlisted_order_999:
  "special_teams_position_order pn = None \<Longrightarrow> dict_get special_teams_position_order pn 999 = 999"
  by (simp add: dict_get_def)

lemma key_special_teams:
  "get_position_sort_key (3, q, d) = (3, dict_get special_teams_position_order q 999, [], d)"
  by (simp add: get_position_sort_key_def unit_priority_map_def dict_get_def)

lemma unlisted_sorts_last:
  assumes "special_teams_position_order pn = None" and "special_teams_position_order q \<noteq> None"
  shows "get_position_sort_key (3, q, d) < get_position_sort_key (3, pn, d')"
  using listed_order_le_6 [OF assms(2)] unlisted_order_999 [OF assms(1)]
  by (simp add: key_special_teams)

text \<open>
  C5. On special teams the position keys are the ranks of the table: 1 for the
  placekicker, 2 for the punter, 3 for the holder, 4 for the long snapper, 5 for the
  punt returner and 6 for the kick returner. One special-teams key is less than
  another exactly when its rank is less, or the ranks are equal and its depth text is
  less; so the keys of PK, P, H, LS, PR and KR ascend in that order whatever the
  depths, and a position that the table does not list sorts behind every listed one.
  The sorted list is a rearrangement of the position list in the order of the keys,
  entries with the same key keeping their order, and its first entry is written as the
  primary position. A player listed as P and as H on special teams has the primary
  position P, in whatever order the two entries were met.
\<close>

theorem special_teams_position_priority:
  "(dict_get special_teams_position_order ''PK'' 999 = 1 \<and>
    dict_get special_teams_position_order ''P'' 999 = 2 \<and>
    dict_get special_teams_position_order ''H'' 999 = 3 \<and>
    dict_get special_teams_position_order ''LS'' 999 = 4 \<and>
    dict_get special_teams_position_order ''PR'' 999 = 5 \<and>
    dict_get special_teams_position_order ''KR'' 999 = 6) \<and>
   (get_position_sort_key (3, p1, e1) < get_position_sort_key (3, p2, e2) \<longleftrightarrow>
      dict_get special_teams_position_order p1 999 < dict_get special_teams_position_order p2 999 \<or>
      (dict_get special_teams_position_order p1 999 = dict_get special_teams_position_order p2 999 \<and>
       e1 < e2)) \<and>
   (get_position_sort_key (3, ''PK'', a1) < get_position_sort_key (3, ''P'', a2) \<and>
    get_position_sort_key (3, ''P'', a2) < get_position_sort_key (3, ''H'', a3) \<and>
    get_position_sort_key (3, ''H'', a3) < get_position_sort_key (3, ''LS'', a4) \<and>
    get_position_sort_key (3, ''LS'', a4) < get_position_sort_key (3, ''PR'', a5) \<and>
    get_position_sort_key (3, ''PR'', a5) < get_position_sort_key (3, ''KR'', a6)) \<and>
   (special_teams_position_order pn = None \<and> special_teams_position_order q \<noteq> None \<longrightarrow>
      get_position_sort_key (3, q, d) < get_position_sort_key (3, pn, d')) \<and>
   (mset (sort_positions ps) = mset ps \<and>
    sorted (map get_position_sort_key (sort_positions ps)) \<and>
    filter (\<lambda>t. get_position_sort_key t = k) (sort_positions ps)
      = filter (\<lambda>t. get_position_sort_key t = k) ps) \<and>
   (all_positions r \<noteq> [] \<longrightarrow>
      output_row r ! 1 = Some (fst (snd (hd (sort_positions (all_positions r))))) \<and>
      output_row r ! 2 = Some (snd (snd (hd (sort_positions (all_positions r)))))) \<and>
   (set (all_positions p) = {(3, ''P'', d1), (3, ''H'', d2)} \<longrightarrow>
      output_row p ! 1 = Some ''P'' \<and> output_row p ! 2 = Some d1)"
proof (intro conjI)
  show "dict_get special_teams_position_order ''PK'' 999 = 1"
    "dict_get special_teams_position_order ''P'' 999 = 2"
    "dict_get special_teams_position_order ''H'' 999 = 3"
    "dict_get special_teams_position_order ''LS'' 999 = 4"
    "dict_get special_teams_position_order ''PR'' 999 = 5"
    "dict_get special_teams_position_order ''KR'' 999 = 6"
    using special_teams_order_values by blast+
next
  show "get_position_sort_key (3, p1, e1) < get_position_sort_key (3, p2, e2) \<longleftrightarrow>
      dict_get special_teams_position_order p1 999 < dict_get special_teams_position_order p2 999 \<or>
      (dict_get special_teams_position_order p1 999 = dict_get special_teams_position_order p2 999 \<and>
       e1 < e2)"
    using key_less_iff [of 3 p1 e1 3 p2 e2] by simp
next
  show "get_position_sort_key (3, ''PK'', a1) < get_position_sort_key (3, ''P'', a2)"
    "get_position_sort_key (3, ''P'', a2) < get_position_sort_key (3, ''H'', a3)"
    "get_position_sort_key (3, ''H'', a3) < get_position_sort_key (3, ''LS'', a4)"
    "get_position_sort_key (3, ''LS'', a4) < get_position_sort_key (3, ''PR'', a5)"
    "get_position_sort_key (3, ''PR'', a5) < get_position_sort_key (3, ''KR'', a6)"
    using special_teams_order_values by (simp_all add: key_special_teams)
next
  show "special_teams_position_order pn = None \<and> special_teams_position_order q \<noteq> None \<longrightarrow>
      get_position_sort_key (3, q, d) < get_position_sort_key (3, pn, d')"
    using unlisted_sorts_last by blast
next
  show "mset (sort_positions ps) = mset ps"
    "sorted (map get_position_sort_key (sort_positions ps))"
    using sort_positions_sorted by blast+
next
  show "filter (\<lambda>t. get_position_sort_key t = k) (sort_positions ps)
      = filter (\<lambda>t. get_position_sort_key t = k) ps"
    by (rule sort_positions_stable)
next
  show "all_positions r \<noteq> [] \<longrightarrow>
      output_row r ! 1 = Some (fst (snd (hd (sort_positions (all_positions r))))) \<and>
      output_row r ! 2 = Some (snd (snd (hd (sort_positions (all_positions r)))))"
    using primary_of_output_row by blast
next
  show "set (all_positions p) = {(3, ''P'', d1), (3, ''H'', d2)} \<longrightarrow>
      output_row p ! 1 = Some ''P'' \<and> output_row p ! 2 = Some d1"
    using primary_P_H by blast
qed

theorem special_teams_position_priority_witness:
  "special_teams_position_order ''XX'' = None \<and> special_teams_position_order ''KR'' \<noteq> None \<and>
   get_position_sort_key (3, ''KR'', ''9'') < get_position_sort_key (3, ''XX'', ''1'') \<and>
   set (all_positions
          (default_player ''T''\<lparr>all_positions := [(3, ''H'', ''1''), (3, ''P'', ''2'')]\<rparr>))
     = {(3, ''P'', ''2''), (3, ''H'', ''1'')} \<and>
   output_row (default_player ''T''\<lparr>all_positions := [(3, ''H'', ''1''), (3, ''P'', ''2'')]\<rparr>) ! 1
     = Some ''P'' \<and>
   output_row (default_player ''T''\<lparr>all_positions := [(3, ''H'', ''1''), (3, ''P'', ''2'')]\<rparr>) ! 2
     = Some ''2'' \<and>
   all_positions
     (default_player ''T''
        \<lparr>all_positions := [(3, ''XX'', ''1''), (3, ''KR'', ''1''), (3, ''PR'', ''1''),
                            (3, ''LS'', ''1''), (3, ''H'', ''1''), (3, ''P'', ''1''),
                            (3, ''PK'', ''2'')]\<rparr>) \<noteq> [] \<and>
   sort_positions [(3, ''XX'', ''1''), (3, ''KR'', ''1''), (3, ''PR'', ''1''), (3, ''LS'', ''1''),
                   (3, ''H'', ''1''), (3, ''P'', ''1''), (3, ''PK'', ''2'')]
     = [(3, ''PK'', ''2''), (3, ''P'', ''1''), (3, ''H'', ''1''), (3, ''LS'', ''1''),
        (3, ''PR'', ''1''), (3, ''KR'', ''1''), (3, ''XX'', ''1'')] \<and>
   output_row
     (default_player ''T''
        \<lparr>all_positions := [(3, ''XX'', ''1''), (3, ''KR'', ''1''), (3, ''PR'', ''1''),
                            (3, ''LS'', ''1''), (3, ''H'', ''1''), (3, ''P'', ''1''),
                            (3, ''PK'', ''2'')]\<rparr>) ! 1 = Some ''PK''"
proof -
  let ?p = "default_player ''T''\<lparr>all_positions := [(3, ''H'', ''1''), (3, ''P'', ''2'')]\<rparr>"
  let ?ps = "[(3, ''XX'', ''1''), (3, ''KR'', ''1''), (3, ''PR'', ''1''), (3, ''LS'', ''1''),
              (3, ''H'', ''1''), (3, ''P'', ''1''), (3 :: nat, ''PK'', ''2'')]"
  let ?r = "default_player ''T''\<lparr>all_positions := ?ps\<rparr>"
  note T = special_teams_position_priority
    [where pn = "''XX''" and q = "''KR''" and d = "''9''" and d' = "''1''" and p = ?p
       and ?d1.0 = "''2''" and ?d2.0 = "''1''" and r = ?r and ps = ?ps]
  have n: "special_teams_position_order ''XX'' = None"
    by (simp add: special_teams_position_order_def)
  have l: "special_teams_position_order ''KR'' \<noteq> None"
    by (simp add: special_teams_position_order_def)
  have k: "get_position_sort_key (3, ''KR'', ''9'') < get_position_sort_key (3, ''XX'', ''1'')"
    by (rule T [THEN conjunct2, THEN conjunct2, THEN conjunct2, THEN conjunct1, THEN mp,
          OF conjI [OF n l]])
  have s: "set (all_positions ?p) = {(3, ''P'', ''2''), (3, ''H'', ''1'')}"
    by (simp add: insert_commute)
  have o: "output_row ?p ! 1 = Some ''P'' \<and> output_row ?p ! 2 = Some ''2''"
    by (rule T [THEN conjunct2, THEN conjunct2, THEN conjunct2, THEN conjunct2, THEN conjunct2,
          THEN conjunct2, THEN mp, OF s])
  have e: "all_positions ?r \<noteq> []" by simp
  have x: "sort_positions ?ps
     = [(3, ''PK'', ''2''), (3, ''P'', ''1''), (3, ''H'', ''1''), (3, ''LS'', ''1''),
        (3, ''PR'', ''1''), (3, ''KR'', ''1''), (3, ''XX'', ''1'')]"
    by (simp add: sort_positions_def get_position_sort_key_def unit_priority_map_def dict_get_def
          special_teams_position_order_def)
  have "output_row ?r ! 1 = Some (fst (snd (hd (sort_positions (all_positions ?r)))))"
    by (rule T [THEN conjunct2, THEN conjunct2, THEN conjunct2, THEN conjunct2, THEN conjunct2,
          THEN conjunct1, THEN mp, OF e, THEN conjunct1])
  then have h: "output_row ?r ! 1 = Some ''PK''"
    using x by simp
  from n l k s o e x h show ?thesis by (intro conjI) (elim conjE, assumption)+
qed

subsection \<open>The order of the output\<close>

lemma PlayerUID_add_position [simp]: "PlayerUID (add_position u p row) = PlayerUID p"
  by (simp add: add_position_def split: option.splits)

lemma map_of_uid_keyed:
  "uid_keyed cp \<Longrightarrow> map_of cp k = Some p \<Longrightarrow> PlayerUID p = k"
  by (auto simp: uid_keyed_def list_all_iff dest: map_of_SomeD)

lemma PlayerUID_update_info_lookup:
  "uid_keyed cp \<Longrightarrow> PlayerUID (update_info (lookup_player t cp k) k row) = k"
  by (auto simp: update_info_def lookup_player_def default_player_def truthy_def
        dest: map_of_uid_keyed split: option.splits)

lemma list_all_update:
  "list_all (\<lambda>(k, p). Q k p) cp \<Longrightarrow> Q k p \<Longrightarrow> list_all (\<lambda>(k, p). Q k p) (AList.update k p cp)"
  by (induction cp) auto

lemma uid_keyed_update:
  "uid_keyed cp \<Longrightarrow> PlayerUID p = k \<Longrightarrow> uid_keyed (AList.update k p cp)"
  unfolding uid_keyed_def
  using list_all_update [of "\<lambda>k p. PlayerUID p = k" cp k p]
  by (simp add: AList.distinct_update)

lemma uid_keyed_process_row: "uid_keyed cp \<Longrightarrow> uid_keyed (process_row t u cp row)"
  by (simp add: process_row_def Let_def uid_keyed_update PlayerUID_update_info_lookup
        split: option.splits)

lemma uid_keyed_process_file: "uid_keyed cp \<Longrightarrow> uid_keyed (process_file t u cp rows)"
  unfolding process_file_def
  by (induction rows arbitrary: cp) (simp_all add: uid_keyed_process_row)

lemma uid_keyed_foldl_files:
  "uid_keyed cp \<Longrightarrow> uid_keyed (foldl (\<lambda>cp sfx. process_file t (f sfx) cp (g sfx)) cp ks)"
  by (induction ks arbitrary: cp) (simp_all add: uid_keyed_process_file)

lemma uid_keyed_consolidate: "uid_keyed (consolidate t fi)"
  unfolding consolidate_def
  by (rule uid_keyed_foldl_files) (simp add: uid_keyed_def)

lemma output_row_uid: "output_row p ! 5 = Some (PlayerUID p)"
  by (simp add: output_row_def Let_def)

lemma lookup_player_key:
  "uid_keyed cp \<Longrightarrow> k \<in> set (map fst cp) \<Longrightarrow> PlayerUID (lookup_player t cp k) = k"
proof -
  assume u: "uid_keyed cp" and k: "k \<in> set (map fst cp)"
  from k obtain p where "map_of cp k = Some p"
    by (metis map_of_eq_None_iff not_Some_eq set_map)
  with u show ?thesis by (simp add: lookup_player_def map_of_uid_keyed)
qed

lemma uid_column_output_rows:
  assumes "uid_keyed cp"
  shows "uid_column (output_rows t cp) = map Some (sort (map fst cp))"
proof -
  have "map (\<lambda>k. output_row (lookup_player t cp k) ! 5) (sort (map fst cp))
        = map Some (sort (map fst cp))"
    by (rule map_cong [OF refl]) (simp add: output_row_uid lookup_player_key [OF assms])
  then show ?thesis by (simp add: uid_column_def output_rows_def comp_def)
qed

lemma sorted_keys_strict:
  "uid_keyed cp \<Longrightarrow> sorted_wrt (<) (sort (map fst cp))"
  by (simp add: uid_keyed_def strict_sorted_iff)

lemma create_master_listing_order:
  assumes "mset ls' = mset ls"
  shows "create_master_depth_chart_csv content ls' out = create_master_depth_chart_csv content ls out"
proof -
  let ?P = "\<lambda>f. endswith f ''.csv'' \<and> f \<noteq> out"
  from assms have m: "mset (filter ?P ls') = mset (filter ?P ls)" by simp
  have "sort (filter ?P ls') = sorted_list_of_multiset (mset (filter ?P ls'))"
    by (simp only: sorted_list_of_multiset_mset)
  also have "\<dots> = sorted_list_of_multiset (mset (filter ?P ls))"
    by (simp only: m)
  also have "\<dots> = sort (filter ?P ls)"
    by (simp only: sorted_list_of_multiset_mset)
  finally have s: "sort (filter ?P ls') = sort (filter ?P ls)" .
  from m have "length (filter ?P ls') = length (filter ?P ls)" by (rule mset_eq_length)
  then have e: "(filter ?P ls' = []) = (filter ?P ls = [])" by (simp only: length_0_conv [symmetric])
  show ?thesis unfolding create_master_depth_chart_csv_def Let_def by (simp only: s e)
qed

text \<open>
  C6. The rows of a combined table follow the uids in strictly ascending order, the
  table of a team does not depend on the order in which the directory lists its files,
  and neither does the master table: two runs on the same files write the same tables.
\<close>

theorem output_is_deterministic:
  "uid_column (combine_team t l) = map Some (sort (map fst (consolidate t (group_files l)))) \<and>
   sorted_wrt (<) (sort (map fst (consolidate t (group_files l)))) \<and>
   (valid_listing l \<and> mset l' = mset l \<longrightarrow> combine_team t l' = combine_team t l) \<and>
   (mset ls' = mset ls \<longrightarrow>
      create_master_depth_chart_csv content ls' out = create_master_depth_chart_csv content ls out)"
proof (intro conjI impI)
  show "uid_column (combine_team t l) = map Some (sort (map fst (consolidate t (group_files l))))"
    unfolding combine_team_def by (rule uid_column_output_rows) (rule uid_keyed_consolidate)
next
  show "sorted_wrt (<) (sort (map fst (consolidate t (group_files l))))"
    by (rule sorted_keys_strict) (rule uid_keyed_consolidate)
next
  assume "valid_listing l \<and> mset l' = mset l"
  then show "combine_team t l' = combine_team t l"
    using combine_team_listing_order by blast
next
  assume "mset ls' = mset ls"
  then show "create_master_depth_chart_csv content ls' out
             = create_master_depth_chart_csv content ls out"
    by (rule create_master_listing_order)
qed

theorem output_is_deterministic_witness:
  "valid_listing
     [(''_defense.csv'', [csv_line ''u1'' ''B'' ''/b'' [] ''LB'' ''1'']),
      (''_offense.csv'', [csv_line ''u2'' ''A'' ''/a'' [] ''QB'' ''1''])] \<and>
   mset [(''_offense.csv'', [csv_line ''u2'' ''A'' ''/a'' [] ''QB'' ''1'']),
         (''_defense.csv'', [csv_line ''u1'' ''B'' ''/b'' [] ''LB'' ''1''])]
     = mset [(''_defense.csv'', [csv_line ''u1'' ''B'' ''/b'' [] ''LB'' ''1'']),
             (''_offense.csv'', [csv_line ''u2'' ''A'' ''/a'' [] ''QB'' ''1''])] \<and>
   combine_team ''T''
     [(''_offense.csv'', [csv_line ''u2'' ''A'' ''/a'' [] ''QB'' ''1'']),
      (''_defense.csv'', [csv_line ''u1'' ''B'' ''/b'' [] ''LB'' ''1''])]
   = combine_team ''T''
     [(''_defense.csv'', [csv_line ''u1'' ''B'' ''/b'' [] ''LB'' ''1'']),
      (''_offense.csv'', [csv_line ''u2'' ''A'' ''/a'' [] ''QB'' ''1''])] \<and>
   uid_column (combine_team ''T''
     [(''_defense.csv'', [csv_line ''u1'' ''B'' ''/b'' [] ''LB'' ''1'']),
      (''_offense.csv'', [csv_line ''u2'' ''A'' ''/a'' [] ''QB'' ''1''])])
   = [Some ''u1'', Some ''u2''] \<and>
   mset [''b_combined_depth_chart.csv'', ''a_combined_depth_chart.csv'']
     = mset [''a_combined_depth_chart.csv'', ''b_combined_depth_chart.csv''] \<and>
   create_master_depth_chart_csv (\<lambda>f. [[''TeamName''], [f]])
     [''b_combined_depth_chart.csv'', ''a_combined_depth_chart.csv''] ''master.csv''
   = create_master_depth_chart_csv (\<lambda>f. [[''TeamName''], [f]])
     [''a_combined_depth_chart.csv'', ''b_combined_depth_chart.csv''] ''master.csv'' \<and>
   create_master_depth_chart_csv (\<lambda>f. [[''TeamName''], [f]])
     [''b_combined_depth_chart.csv'', ''a_combined_depth_chart.csv''] ''master.csv''
   = Some [[''TeamName''], [''a_combined_depth_chart.csv''], [''b_combined_depth_chart.csv'']]"
proof -
  let ?l = "[(''_defense.csv'', [csv_line ''u1'' ''B'' ''/b'' [] ''LB'' ''1'']),
             (''_offense.csv'', [csv_line ''u2'' ''A'' ''/a'' [] ''QB'' ''1''])]"
  let ?l' = "[(''_offense.csv'', [csv_line ''u2'' ''A'' ''/a'' [] ''QB'' ''1'']),
              (''_defense.csv'', [csv_line ''u1'' ''B'' ''/b'' [] ''LB'' ''1''])]"
  let ?ls = "[''a_combined_depth_chart.csv'', ''b_combined_depth_chart.csv'']"
  let ?ls' = "[''b_combined_depth_chart.csv'', ''a_combined_depth_chart.csv'']"
  let ?c = "\<lambda>f :: string. [[''TeamName''], [f]]"
  note T = output_is_deterministic [of "''T''" ?l ?l' ?ls' ?ls ?c "''master.csv''"]
  have v: "valid_listing ?l"
    by (simp add: valid_listing_def unit_priority_map_def)
  have m: "mset ?l' = mset ?l"
    by (simp add: add.commute)
  have e: "combine_team ''T'' ?l' = combine_team ''T'' ?l"
    by (rule T [THEN conjunct2, THEN conjunct2, THEN conjunct1, THEN mp, OF conjI [OF v m]])
  have k: "map fst (consolidate ''T'' (group_files ?l)) = [''u2'', ''u1'']"
    by (simp add: combine_simps)
  have u: "uid_column (combine_team ''T'' ?l) = [Some ''u1'', Some ''u2'']"
    unfolding T [THEN conjunct1] k by simp
  have n: "mset ?ls' = mset ?ls"
    by (simp add: add.commute)
  have f: "create_master_depth_chart_csv ?c ?ls' ''master.csv''
           = create_master_depth_chart_csv ?c ?ls ''master.csv''"
    by (rule T [THEN conjunct2, THEN conjunct2, THEN conjunct2, THEN mp, OF n])
  have g: "create_master_depth_chart_csv ?c ?ls ''master.csv''
           = Some [[''TeamName''], [''a_combined_depth_chart.csv''], [''b_combined_depth_chart.csv'']]"
    by (simp add: create_master_depth_chart_csv_def endswith_def)
  from v m e u n f g show ?thesis by (simp only: simp_thms)
qed

section \<open>Identity keys\<close>

lemma process_row_without_uid:
  "\<not> truthy (row_PlayerUID row) \<Longrightarrow> process_row t u cp row = cp"
  by (simp add: process_row_def skip_row_def)

lemma keys_process_row:
  "set (map fst (process_row t u cp row)) = set (map fst cp) \<union> set (accepted_uids [row])"
  by (auto simp: process_row_def accepted_uids_def Let_def AList.dom_update skip_row_def truthy_def
        split: option.splits)

lemma accepted_uids_append [simp]:
  "accepted_uids (xs @ ys) = accepted_uids xs @ accepted_uids ys"
  by (simp add: accepted_uids_def)

lemma keys_process_file:
  "set (map fst (process_file t u cp rows)) = set (map fst cp) \<union> set (accepted_uids rows)"
proof (induction rows arbitrary: cp)
  case Nil
  then show ?case by (simp add: process_file_def accepted_uids_def)
next
  case (Cons row rows)
  have "accepted_uids (row # rows) = accepted_uids [row] @ accepted_uids rows"
    using accepted_uids_append [of "[row]" rows] by simp
  with Cons.IH [of "process_row t u cp row"] keys_process_row [of t u cp row]
  show ?case by (auto simp: process_file_def)
qed

lemma keys_foldl_files:
  "set (map fst (foldl (\<lambda>cp sfx. process_file t (f sfx) cp (g sfx)) cp ks))
   = set (map fst cp) \<union> (\<Union>sfx \<in> set ks. set (accepted_uids (g sfx)))"
proof (induction ks arbitrary: cp)
  case Nil
  then show ?case by simp
next
  case (Cons sfx ks)
  from Cons.IH [of "process_file t (f sfx) cp (g sfx)"] keys_process_file [of t "f sfx" cp "g sfx"]
  show ?case by auto
qed

lemma keys_consolidate:
  "set (map fst (consolidate t fi))
   = (\<Union>sfx \<in> set (map fst fi). set (accepted_uids (dict_get (map_of fi) sfx [])))"
  unfolding consolidate_def sorted_file_types_def
  using keys_foldl_files [of t unit_priority "\<lambda>sfx. dict_get (map_of fi) sfx []" "[]"
          "sort_key unit_priority (map fst fi)"]
  by simp

lemma keys_dedup_step:
  "fst ` set (dedup_step d p) = insert (player_key p) (fst ` set d)"
proof (cases "map_of d (player_key p)")
  case None
  then show ?thesis by (simp add: dedup_step_def Let_def AList.dom_update)
next
  case (Some rs)
  then have "(player_key p, rs) \<in> set d" by (rule map_of_SomeD)
  then have "player_key p \<in> fst ` set d" by force
  then have "insert (player_key p) (fst ` set d) = fst ` set d" by blast
  with Some show ?thesis
    by (cases rs) (simp add: dedup_step_def Let_def AList.dom_update)
qed

lemma distinct_dedup_step:
  "distinct (map fst d) \<Longrightarrow> distinct (map fst (dedup_step d p))"
  by (simp add: dedup_step_def Let_def AList.distinct_update split: option.splits)

lemma keys_foldl_dedup:
  "fst ` set (foldl dedup_step d ps) = fst ` set d \<union> player_key ` set ps"
  by (induction ps arbitrary: d) (simp_all add: keys_dedup_step)

lemma distinct_foldl_dedup:
  "distinct (map fst d) \<Longrightarrow> distinct (map fst (foldl dedup_step d ps))"
  by (induction ps arbitrary: d) (simp_all add: distinct_dedup_step)

lemma length_deduplicated:
  "length (deduplicated_players ps) = card (player_key ` set ps)"
proof -
  have "length (deduplicated_players ps) = length (map fst (deduplicate ps))"
    by (simp add: deduplicated_players_def)
  also have "\<dots> = card (set (map fst (deduplicate ps)))"
    using distinct_foldl_dedup [of "[]" ps] by (simp only: deduplicate_def distinct_card list.map distinct.simps)
  also have "\<dots> = card (player_key ` set ps)"
    using keys_foldl_dedup [of "[]" ps] by (simp add: deduplicate_def)
  finally show ?thesis .
qed

lemma uidless_link_row:
  "read_csv_row (csv_player_row tn pn (d, Some \<lparr>name = n, url = u, uid = None, status = None\<rparr>))
   = csv_line [] n u [] pn (str_nat d)"
  by (simp add: read_csv_row_def csv_player_row_def csv_line_def or_empty_def)

text \<open>
  C2, as stated: two sightings with the same name and team and no uid consolidate into
  one player and are never dropped. The consolidator drops both: the table of the team
  below has the header only.
\<close>

theorem uidless_sightings_dropped:
  "consolidate ''T''
     (group_files
        [(''_offense.csv'', [csv_line [] ''A'' ''/a'' [] ''QB'' ''1'']),
         (''_defense.csv'', [csv_line [] ''A'' ''/a'' [] ''LB'' ''2''])]) = [] \<and>
   combine_team ''T''
     [(''_offense.csv'', [csv_line [] ''A'' ''/a'' [] ''QB'' ''1'']),
      (''_defense.csv'', [csv_line [] ''A'' ''/a'' [] ''LB'' ''2''])] = [header]"
  by (simp add: combine_simps)

text \<open>
  C2, amended. The consolidator keys every sighting it processes by the uid alone. A
  sighting without uid leaves the consolidated players unchanged, so it is dropped and
  merges with no other sighting; the keys of the result are the uids of the rows that
  pass the guard of line 100, and each key holds the one player with that uid. The MLB
  deduplication, whose records have no uid, keys by name and team: the sightings with
  one name and team yield exactly one record.
\<close>

theorem identity_key_is_uid:
  "(\<not> truthy (row_PlayerUID row) \<longrightarrow> process_row t u cp row = cp) \<and>
   set (map fst (consolidate t fi))
     = (\<Union>sfx \<in> set (map fst fi). set (accepted_uids (dict_get (map_of fi) sfx []))) \<and>
   uid_keyed (consolidate t fi) \<and>
   distinct (map fst (deduplicate ps)) \<and>
   fst ` set (deduplicate ps) = player_key ` set ps \<and>
   length (deduplicated_players ps) = card (player_key ` set ps)"
proof (intro conjI impI)
  assume "\<not> truthy (row_PlayerUID row)"
  then show "process_row t u cp row = cp" by (rule process_row_without_uid)
next
  show "set (map fst (consolidate t fi))
     = (\<Union>sfx \<in> set (map fst fi). set (accepted_uids (dict_get (map_of fi) sfx [])))"
    by (rule keys_consolidate)
next
  show "uid_keyed (consolidate t fi)" by (rule uid_keyed_consolidate)
next
  show "distinct (map fst (deduplicate ps))"
    unfolding deduplicate_def by (rule distinct_foldl_dedup) simp
next
  show "fst ` set (deduplicate ps) = player_key ` set ps"
    unfolding deduplicate_def using keys_foldl_dedup [of "[]" ps] by simp
next
  show "length (deduplicated_players ps) = card (player_key ` set ps)"
    by (rule length_deduplicated)
qed

theorem identity_key_is_uid_witness:
  "\<not> truthy (row_PlayerUID (csv_line [] ''A'' ''/a'' [] ''QB'' ''1'')) \<and>
   process_row ''T'' 1 [] (csv_line [] ''A'' ''/a'' [] ''QB'' ''1'') = [] \<and>
   map fst (consolidate ''T''
      [(''_offense.csv'', [csv_line ''u1'' ''A'' ''/a'' [] ''QB'' ''1'',
                           csv_line [] ''C'' ''/c'' [] ''RB'' ''1'']),
       (''_defense.csv'', [csv_line ''u1'' ''B'' ''/b'' [] ''LB'' ''2''])]) = [''u1''] \<and>
   length (deduplicated_players
      [\<lparr>team_name = ''T'', team_abbrev = ''t'', section_title = ''S'', position_name = ''SP'',
        player_name = ''A'', depth_label = ''2nd'', player_url = None, player_status = None\<rparr>,
       \<lparr>team_name = ''T'', team_abbrev = ''t'', section_title = ''S'', position_name = ''RP'',
        player_name = ''A'', depth_label = ''Starter'', player_url = None, player_status = None\<rparr>])
     = 1"
proof -
  let ?row = "csv_line [] ''A'' ''/a'' [] ''QB'' ''1''"
  let ?fi = "[(''_offense.csv'', [csv_line ''u1'' ''A'' ''/a'' [] ''QB'' ''1'',
                                  csv_line [] ''C'' ''/c'' [] ''RB'' ''1'']),
              (''_defense.csv'', [csv_line ''u1'' ''B'' ''/b'' [] ''LB'' ''2''])]"
  let ?ps = "[\<lparr>team_name = ''T'', team_abbrev = ''t'', section_title = ''S'', position_name = ''SP'',
        player_name = ''A'', depth_label = ''2nd'', player_url = None, player_status = None\<rparr>,
       \<lparr>team_name = ''T'', team_abbrev = ''t'', section_title = ''S'', position_name = ''RP'',
        player_name = ''A'', depth_label = ''Starter'', player_url = None, player_status = None\<rparr>]"
  note T = identity_key_is_uid [of ?row "''T''" 1 "[]" ?fi ?ps]
  have a: "\<not> truthy (row_PlayerUID ?row)" by (simp add: truthy_def csv_line_def)
  have b: "process_row ''T'' 1 [] ?row = []" by (rule T [THEN conjunct1, THEN mp, OF a])
  have c: "map fst (consolidate ''T'' ?fi) = [''u1'']" by (simp add: combine_simps)
  have "card (player_key ` set ?ps) = 1" by (simp add: player_key_def)
  with T have d: "length (deduplicated_players ?ps) = 1" by (simp only:)
  from a b c d show ?thesis by (intro conjI)
qed

section \<open>Properties of the parsers\<close>

lemmas dom_simps = find_first_def find_all_def is_tag_def has_class_def has_attr_def class_test_def
  text_of_def strip_def is_space_def get_text_stripped_def anchor_link_def statCell_def

lemma zip_take_min:
  "zip (take (min (length xs) (length ys)) xs) (take (min (length xs) (length ys)) ys) = zip xs ys"
  by (rule nth_equalityI) auto

lemma positions_and_players_assemble:
  "positions_and_players (assemble t ps rs) = map (\<lambda>(p, r). \<lparr>position = p, players = r\<rparr>) (zip ps rs)"
  unfolding assemble_def Let_def by (rule nth_equalityI) auto

lemma mlb_assemble_zip:
  "mlb_assemble tn ta ti dl prs rs = concat (map (\<lambda>(p, r). mlb_parse_row tn ta ti dl p r) (zip prs rs))"
  unfolding mlb_assemble_def by (rule arg_cong [where f = concat], rule nth_equalityI) auto

lemma parse_depth_chart_html_assembled:
  "parse_depth_chart_html soup = Inr (Some d) \<Longrightarrow>
   \<exists>ps sc rs. extract_positions soup = Inr ps \<and>
     find_first soup (\<lambda>n. is_tag ''div'' n \<and> has_class ''Table__Scroller'' n) = Some sc \<and>
     extract_player_rows sc = Inr rs \<and> d = assemble (formation_title_of soup) ps rs"
  by (auto simp: parse_depth_chart_html_def Let_def split: sum.splits if_splits option.splits)

text \<open>
  C3. The record assembler makes exactly as many rows as the shorter of its two
  sequences has, the row of index \<open>i\<close> pairing the label of index \<open>i\<close> with the player
  row of index \<open>i\<close>; the rows behind that length have no influence on the result.
  Whatever the parser returns has as many rows as the shorter of the two extracted
  sequences. The MLB scraper pairs its position rows and player rows in the same way.
\<close>

theorem assembler_truncates:
  "length (positions_and_players (assemble t ps rs)) = min (length ps) (length rs) \<and>
   (\<forall>i < min (length ps) (length rs).
      positions_and_players (assemble t ps rs) ! i = \<lparr>position = ps ! i, players = rs ! i\<rparr>) \<and>
   assemble t ps rs =
     assemble t (take (min (length ps) (length rs)) ps) (take (min (length ps) (length rs)) rs) \<and>
   (parse_depth_chart_html soup = Inr (Some d) \<longrightarrow>
      (\<exists>ps' sc rs'. extract_positions soup = Inr ps' \<and>
         find_first soup (\<lambda>n. is_tag ''div'' n \<and> has_class ''Table__Scroller'' n) = Some sc \<and>
         extract_player_rows sc = Inr rs' \<and>
         length (positions_and_players d) = min (length ps') (length rs'))) \<and>
   mlb_assemble tn ta ti dl prs cells =
     concat (map (\<lambda>(p, r). mlb_parse_row tn ta ti dl p r) (zip prs cells)) \<and>
   mlb_assemble tn ta ti dl prs cells =
     mlb_assemble tn ta ti dl (take (min (length prs) (length cells)) prs)
       (take (min (length prs) (length cells)) cells)"
proof (intro conjI allI impI)
  show "length (positions_and_players (assemble t ps rs)) = min (length ps) (length rs)"
    by (simp add: positions_and_players_assemble)
next
  fix i assume "i < min (length ps) (length rs)"
  then show "positions_and_players (assemble t ps rs) ! i = \<lparr>position = ps ! i, players = rs ! i\<rparr>"
    by (simp add: positions_and_players_assemble)
next
  let ?n = "min (length ps) (length rs)"
  have "positions_and_players (assemble t ps rs)
        = positions_and_players (assemble t (take ?n ps) (take ?n rs))"
    unfolding positions_and_players_assemble zip_take_min ..
  moreover have "formation (assemble t ps rs) = formation (assemble t (take ?n ps) (take ?n rs))"
    by (simp add: assemble_def Let_def)
  ultimately show "assemble t ps rs = assemble t (take ?n ps) (take ?n rs)"
    by (auto intro: structured_data.equality)
next
  assume "parse_depth_chart_html soup = Inr (Some d)"
  from parse_depth_chart_html_assembled [OF this] obtain ps' sc rs' where
    "extract_positions soup = Inr ps'"
    "find_first soup (\<lambda>n. is_tag ''div'' n \<and> has_class ''Table__Scroller'' n) = Some sc"
    "extract_player_rows sc = Inr rs'" "d = assemble (formation_title_of soup) ps' rs'"
    by blast
  then show "\<exists>ps' sc rs'. extract_positions soup = Inr ps' \<and>
         find_first soup (\<lambda>n. is_tag ''div'' n \<and> has_class ''Table__Scroller'' n) = Some sc \<and>
         extract_player_rows sc = Inr rs' \<and>
         length (positions_and_players d) = min (length ps') (length rs')"
    by (simp add: positions_and_players_assemble)
next
  show "mlb_assemble tn ta ti dl prs cells =
     concat (map (\<lambda>(p, r). mlb_parse_row tn ta ti dl p r) (zip prs cells))"
    by (rule mlb_assemble_zip)
next
  show "mlb_assemble tn ta ti dl prs cells =
     mlb_assemble tn ta ti dl (take (min (length prs) (length cells)) prs)
       (take (min (length prs) (length cells)) cells)"
    unfolding mlb_assemble_zip zip_take_min ..
qed

theorem assembler_truncates_witness:
  "(1::nat) < min (length [''QB'', ''RB'', ''WR'']) (length [[None], [None :: player_entry option]]) \<and>
   length (positions_and_players (assemble ''F'' [''QB'', ''RB'', ''WR''] [[None], [None]])) = 2 \<and>
   positions_and_players (assemble ''F'' [''QB'', ''RB'', ''WR''] [[None], [None]]) ! 1
     = \<lparr>position = ''RB'', players = [None]\<rparr> \<and>
   parse_depth_chart_html
     (Tag ''[document]'' [] []
        [Tag ''table'' [''Table--fixed-left''] []
           [Tag ''tbody'' [] []
              [Tag ''tr'' [''Table__TR''] []
                 [Tag ''span'' [] [(''data-testid'', ''statCell'')] [NavigableString ''QB'']],
               Tag ''tr'' [''Table__TR''] []
                 [Tag ''span'' [] [(''data-testid'', ''statCell'')] [NavigableString ''RB'']],
               Tag ''tr'' [''Table__TR''] []
                 [Tag ''span'' [] [(''data-testid'', ''statCell'')] [NavigableString ''WR'']]]],
         Tag ''div'' [''Table__Scroller''] []
           [Tag ''table'' [] []
              [Tag ''tbody'' [] []
                 [Tag ''tr'' [''Table__TR''] [] [Tag ''td'' [''Table__TD''] [] []],
                  Tag ''tr'' [''Table__TR''] [] [Tag ''td'' [''Table__TD''] [] []]]]]])
   = Inr (Some \<lparr>formation = ''Unknown Formation'',
                  positions_and_players = [\<lparr>position = ''QB'', players = [None]\<rparr>,
                                           \<lparr>position = ''RB'', players = [None]\<rparr>]\<rparr>)"
proof -
  let ?soup = "Tag ''[document]'' [] []
        [Tag ''table'' [''Table--fixed-left''] []
           [Tag ''tbody'' [] []
              [Tag ''tr'' [''Table__TR''] []
                 [Tag ''span'' [] [(''data-testid'', ''statCell'')] [NavigableString ''QB'']],
               Tag ''tr'' [''Table__TR''] []
                 [Tag ''span'' [] [(''data-testid'', ''statCell'')] [NavigableString ''RB'']],
               Tag ''tr'' [''Table__TR''] []
                 [Tag ''span'' [] [(''data-testid'', ''statCell'')] [NavigableString ''WR'']]]],
         Tag ''div'' [''Table__Scroller''] []
           [Tag ''table'' [] []
              [Tag ''tbody'' [] []
                 [Tag ''tr'' [''Table__TR''] [] [Tag ''td'' [''Table__TD''] [] []],
                  Tag ''tr'' [''Table__TR''] [] [Tag ''td'' [''Table__TD''] [] []]]]]]"
  let ?d = "\<lparr>formation = ''Unknown Formation'',
             positions_and_players = [\<lparr>position = ''QB'', players = [None]\<rparr>,
                                      \<lparr>position = ''RB'', players = [None]\<rparr>]\<rparr>"
  let ?ps = "[''QB'', ''RB'', ''WR'']"
  let ?rs = "[[None], [None :: player_entry option]]"
  note T = assembler_truncates [of "''F''" ?ps ?rs ?soup ?d "[]" "[]" "[]" "[]" "[]" "[]"]
  have i: "(1::nat) < min (length ?ps) (length ?rs)" by simp
  have l: "length (positions_and_players (assemble ''F'' ?ps ?rs)) = 2"
    using T [THEN conjunct1] by simp
  have n: "positions_and_players (assemble ''F'' ?ps ?rs) ! 1 = \<lparr>position = ''RB'', players = [None]\<rparr>"
    using T [THEN conjunct2, THEN conjunct1, THEN spec, of 1, THEN mp, OF i] by simp
  have p: "parse_depth_chart_html ?soup = Inr (Some ?d)"
    by (simp add: parse_depth_chart_html_def extract_positions_def position_of_row_def
          extract_player_rows_def parse_cell_def formation_title_of_def assemble_def
          first_word_def dom_simps)
  from i l n p show ?thesis by (intro conjI)
qed

text \<open>
  C10. When the extraction of the position labels ends with an empty list, the parser
  returns \<^verbatim>\<open>None\<close> whatever the scroller holds, and no CSV file is made for the unit.
  That is the case when the fixed-left table is absent; the parser also returns
  \<^verbatim>\<open>None\<close> when the scroller is absent.
\<close>

theorem empty_positions_give_none:
  "(extract_positions soup = Inr [] \<longrightarrow>
      parse_depth_chart_html soup = Inr None \<and> process_html soup tn = Inr None) \<and>
   (find_first soup (\<lambda>n. is_tag ''table'' n \<and> has_class ''Table--fixed-left'' n) = None \<longrightarrow>
      extract_positions soup = Inr []) \<and>
   (extract_positions soup = Inr ps \<and>
    find_first soup (\<lambda>n. is_tag ''div'' n \<and> has_class ''Table__Scroller'' n) = None \<longrightarrow>
      parse_depth_chart_html soup = Inr None)"
  by (simp add: parse_depth_chart_html_def process_html_def convert_to_csv_def
        extract_positions_def)

theorem empty_positions_give_none_witness:
  "extract_positions
     (Tag ''[document]'' [] []
        [Tag ''table'' [''Table'', ''Table--fixed-left''] []
           [Tag ''tbody'' [] [] [Tag ''tr'' [''Table__TR''] [] [Tag ''td'' [] [] []]]],
         Tag ''div'' [''Table__Scroller''] []
           [Tag ''table'' [] []
              [Tag ''tbody'' [] []
                 [Tag ''tr'' [''Table__TR''] []
                    [Tag ''td'' [''Table__TD''] []
                       [Tag ''a'' [''AnchorLink''] [(''href'', ''/p/1'')]
                          [NavigableString ''A B'']]]]]]]) = Inr [] \<and>
   parse_depth_chart_html
     (Tag ''[document]'' [] []
        [Tag ''table'' [''Table'', ''Table--fixed-left''] []
           [Tag ''tbody'' [] [] [Tag ''tr'' [''Table__TR''] [] [Tag ''td'' [] [] []]]],
         Tag ''div'' [''Table__Scroller''] []
           [Tag ''table'' [] []
              [Tag ''tbody'' [] []
                 [Tag ''tr'' [''Table__TR''] []
                    [Tag ''td'' [''Table__TD''] []
                       [Tag ''a'' [''AnchorLink''] [(''href'', ''/p/1'')]
                          [NavigableString ''A B'']]]]]]]) = Inr None \<and>
   find_first (Tag ''[document]'' [] [] [])
     (\<lambda>n. is_tag ''table'' n \<and> has_class ''Table--fixed-left'' n) = None \<and>
   extract_positions (Tag ''[document]'' [] [] []) = Inr []"
proof -
  let ?soup = "Tag ''[document]'' [] []
        [Tag ''table'' [''Table'', ''Table--fixed-left''] []
           [Tag ''tbody'' [] [] [Tag ''tr'' [''Table__TR''] [] [Tag ''td'' [] [] []]]],
         Tag ''div'' [''Table__Scroller''] []
           [Tag ''table'' [] []
              [Tag ''tbody'' [] []
                 [Tag ''tr'' [''Table__TR''] []
                    [Tag ''td'' [''Table__TD''] []
                       [Tag ''a'' [''AnchorLink''] [(''href'', ''/p/1'')]
                          [NavigableString ''A B'']]]]]]]"
  let ?none = "Tag ''[document]'' [] [] []"
  have e: "extract_positions ?soup = Inr []"
    by (simp add: extract_positions_def position_of_row_def dom_simps)
  have p: "parse_depth_chart_html ?soup = Inr None"
    by (rule empty_positions_give_none [of ?soup "[]" "[]", THEN conjunct1, THEN mp, OF e,
          THEN conjunct1])
  have f: "find_first ?none (\<lambda>n. is_tag ''table'' n \<and> has_class ''Table--fixed-left'' n) = None"
    by (simp add: dom_simps)
  have g: "extract_positions ?none = Inr []"
    by (rule empty_positions_give_none [of ?none "[]" "[]", THEN conjunct2, THEN conjunct1,
          THEN mp, OF f])
  from e p f g show ?thesis by (intro conjI)
qed

text \<open>Missing elements: the NFL parser and the NBA parser raise where the MLB parser and
  the NHL parser return without records.\<close>

lemma missing_tbody_raises:
  "find_first soup (\<lambda>n. is_tag ''table'' n \<and> has_class ''Table--fixed-left'' n) = Some left_table \<Longrightarrow>
   find_first left_table (is_tag ''tbody'') = None \<Longrightarrow>
   parse_depth_chart_html soup = Inl AttributeError"
  by (simp add: parse_depth_chart_html_def extract_positions_def)

lemma missing_thead_raises:
  "find_first soup (is_tag ''table'') = Some inner_table \<Longrightarrow>
   find_all inner_table (is_tag ''thead'') = [] \<Longrightarrow>
   nba_parse_table tn ta soup = Inl IndexError"
  by (simp add: nba_parse_table_def nba_headers_def Let_def)

lemma mlb_tolerates_missing_tbody:
  "find_all soup (is_tag ''table'') = position_table # player_data_table # others \<Longrightarrow>
   find_first position_table (is_tag ''tbody'') = None \<or>
   find_first player_data_table (is_tag ''tbody'') = None \<Longrightarrow>
   parse_mlb_depth_chart_data soup tn ta = []"
  by (auto simp: parse_mlb_depth_chart_data_def Let_def split: option.splits)

lemma nhl_tolerates_missing_tbody:
  "find_first soup (is_tag ''table'') = Some inner_table \<Longrightarrow>
   find_first inner_table (is_tag ''tbody'') = None \<Longrightarrow>
   nhl_parse_table tn ta soup = Inr []"
  by (simp add: nhl_parse_table_def Let_def)

text \<open>
  C7. The claim is that the extractor and the parsers never raise on missing nested
  elements. The NFL parser raises \<^verbatim>\<open>AttributeError\<close> on a fixed-left table that has no
  body, and the NBA parser raises \<^verbatim>\<open>IndexError\<close> on a table that has no head.
\<close>

theorem parsers_raise_on_missing_elements:
  "parse_depth_chart_html
     (Tag ''[document]'' [] []
        [Tag ''table'' [''Table'', ''Table--fixed-left''] [] [],
         Tag ''div'' [''Table__Scroller''] [] [Tag ''table'' [] [] [Tag ''tbody'' [] [] []]]])
     = Inl AttributeError \<and>
   parse_nba_roster_data
     [Tag ''[document]'' [] [] [Tag ''table'' [] [] [Tag ''tbody'' [] [] []]]] ''T'' ''t''
     = Inl IndexError"
  by (simp add: parse_depth_chart_html_def extract_positions_def formation_title_of_def dom_simps
        parse_nba_roster_data_def nba_parse_table_def nba_headers_def)

text \<open>The two roster scrapers detect the status in the same way.\<close>

lemma nba_nhl_fallback_same: "nba_fallback_status cell = nhl_fallback_status cell"
  by (auto simp: nba_fallback_status_def nhl_fallback_status_def Let_def split: option.splits)

lemma nba_nhl_status_same: "nba_player_status cell = nhl_player_status cell"
  by (simp add: nba_player_status_def nhl_player_status_def nba_nhl_fallback_same
        split: option.splits)

text \<open>
  C8. The claim is that the parsers of the MLB, the NBA and the NHL all detect the status
  in two stages. On a cell whose status stands in parentheses behind the name, the
  parsers of the NBA and the NHL find it and the parser of the MLB finds none.
\<close>

theorem mlb_status_lacks_fallback:
  "mlb_player_status
     (Tag ''td'' [] []
        [Tag ''div'' [] []
           [Tag ''a'' [''AnchorLink''] [(''href'', ''/p/1'')] [NavigableString ''John Doe''],
            NavigableString '' (DTD)'']]) = None \<and>
   nba_player_status
     (Tag ''td'' [] []
        [Tag ''div'' [] []
           [Tag ''a'' [''AnchorLink''] [(''href'', ''/p/1'')] [NavigableString ''John Doe''],
            NavigableString '' (DTD)'']]) = Some ''DTD'' \<and>
   nhl_player_status
     (Tag ''td'' [] []
        [Tag ''div'' [] []
           [Tag ''a'' [''AnchorLink''] [(''href'', ''/p/1'')] [NavigableString ''John Doe''],
            NavigableString '' (DTD)'']]) = Some ''DTD''"
  by (simp add: mlb_player_status_def nba_player_status_def nhl_player_status_def
        roster_status_span_def nba_fallback_status_def nhl_fallback_status_def dom_simps
        match_group_def at_dollar_def isdigit_def)

end
